theory Spec2Isabelle
  imports Main "HOL-Library.Word" "HOL-Library.Char_ord" "HOL-Library.List_Lexorder"
begin

unbundle bit_operations_syntax

text \<open>
  A model of the two modules of the business registry: the record store
  \<^verbatim>\<open>umkmService\<close> over either a hosted backend or the browser's \<^verbatim>\<open>localStorage\<close>, and
  the session manager \<^verbatim>\<open>AuthProvider\<close>. Every operation is a function of the state
  it reads and of what it takes from its surroundings (the clock, the random
  numbers, the answers of the backend and of the prompt), and returns its result
  together with the state it leaves. A raised error is a value \<open>Inl\<close>. The calls to
  \<^verbatim>\<open>console\<close> and \<^verbatim>\<open>alert\<close> have no effect on results or state and are left out.
\<close>

section \<open>UUID helpers (src/lib/supabase.ts, lines 51-75)\<close>

text \<open>
  \<^verbatim>\<open>isValidUUID\<close> tests a string against the regular expression
  \<^verbatim>\<open>/^[0-9a-f]{8}-[0-9a-f]{4}-[0-9a-f]{4}-[0-9a-f]{4}-[0-9a-f]{12}$/i\<close>.
  The flag \<^verbatim>\<open>i\<close> admits upper-case hex digits; without the flag \<^verbatim>\<open>m\<close> the
  anchors match only the two ends of the input. \<^verbatim>\<open>undefined\<close> and \<^verbatim>\<open>null\<close>
  are \<open>None\<close>; the empty string is falsy and is rejected by the guard \<^verbatim>\<open>str &&\<close>.
\<close>

definition is_hex :: "char \<Rightarrow> bool" where
  "is_hex c = (c \<in> set ''0123456789abcdefABCDEF'')"

text \<open>\<open>hexes n s\<close> consumes exactly \<open>n\<close> hex digits from the front of \<open>s\<close>
  (the regex atom \<^verbatim>\<open>[0-9a-f]{n}\<close>), \<open>dash\<close> consumes one \<^verbatim>\<open>-\<close>; each
  returns the rest of the input.\<close>

fun hexes :: "nat \<Rightarrow> string \<Rightarrow> string option" where
  "hexes 0 s = Some s"
| "hexes (Suc n) [] = None"
| "hexes (Suc n) (c # cs) = (if is_hex c then hexes n cs else None)"

fun dash :: "string \<Rightarrow> string option" where
  "dash [] = None"
| "dash (c # cs) = (if c = CHR ''-'' then Some cs else None)"

definition uuid_regex :: "string \<Rightarrow> bool" where
  "uuid_regex s =
     (Option.bind (Option.bind (Option.bind (Option.bind (Option.bind (Option.bind
        (Option.bind (Option.bind (hexes 8 s) dash) (hexes 4)) dash) (hexes 4)) dash)
        (hexes 4)) dash) (hexes 12) = Some [])"

definition isValidUUID :: "string option \<Rightarrow> bool" where
  "isValidUUID str = (case str of None \<Rightarrow> False | Some s \<Rightarrow> s \<noteq> [] \<and> uuid_regex s)"

text \<open>
  \<^verbatim>\<open>generateUUID\<close> replaces every \<^verbatim>\<open>x\<close> and \<^verbatim>\<open>y\<close> of the template, left to
  right, by one hex digit. Each replacement draws \<^verbatim>\<open>r = (Math.random() * 16) | 0\<close>,
  an integer from 0 to 15: a 4-bit word. The source of randomness is the sequence
  \<open>rnd\<close> of draws; \<open>rnd k\<close> is the draw of the \<open>k\<close>-th replacement.
  \<^verbatim>\<open>v.toString(16)\<close> of such a value is one lower-case hex digit.
\<close>

definition toString16 :: "4 word \<Rightarrow> char" where
  "toString16 v = ''0123456789abcdef'' ! unat v"

definition uuid_digit :: "char \<Rightarrow> 4 word \<Rightarrow> char" where
  "uuid_digit c r = (let v = (if c = CHR ''x'' then r else (r AND 3) OR 8) in toString16 v)"

fun replace_xy :: "(nat \<Rightarrow> 4 word) \<Rightarrow> nat \<Rightarrow> string \<Rightarrow> string" where
  "replace_xy rnd k [] = []"
| "replace_xy rnd k (c # cs) =
     (if c = CHR ''x'' \<or> c = CHR ''y''
      then uuid_digit c (rnd k) # replace_xy rnd (Suc k) cs
      else c # replace_xy rnd k cs)"

definition generateUUID :: "(nat \<Rightarrow> 4 word) \<Rightarrow> string" where
  "generateUUID rnd = replace_xy rnd 0 ''xxxxxxxx-xxxx-4xxx-yxxx-xxxxxxxxxxxx''"

definition ensureValidUUID :: "(nat \<Rightarrow> 4 word) \<Rightarrow> string option \<Rightarrow> string" where
  "ensureValidUUID rnd ident =
     (case ident of
        Some s \<Rightarrow> if isValidUUID (Some s) then s else generateUUID rnd
      | None \<Rightarrow> generateUUID rnd)"

section \<open>Data model of the record store (src/lib/supabase.ts, lines 20-49)\<close>

text \<open>
  The interface \<^verbatim>\<open>UMKM\<close> becomes a record. An optional field (\<^verbatim>\<open>f?: T\<close>) has
  type \<open>T option\<close>, \<open>None\<close> standing for an absent key. The field \<^verbatim>\<open>id\<close> is
  written \<open>id'\<close>. The \<^verbatim>\<open>number\<close> fields are carried as \<open>int\<close>: no operation
  of the store computes with them.

  \<open>Partial_UMKM\<close> is \<^verbatim>\<open>Partial<UMKM>\<close>, the payload of \<^verbatim>\<open>update\<close>: every key may
  be absent. \<open>UMKM_payload\<close> is \<^verbatim>\<open>Omit<UMKM, "id" | "created_at" | "updated_at">\<close>,
  the payload of \<^verbatim>\<open>create\<close>, and \<open>UMKM\<close> extends it by the three omitted fields.
\<close>

record Partial_UMKM =
  id' :: "string option"
  nama_usaha :: "string option"
  pemilik :: "string option"
  nik_pemilik :: "string option"
  no_hp :: "string option"
  alamat_usaha :: "string option"
  jenis_usaha :: "string option"
  kategori_usaha :: "string option"
  deskripsi_usaha :: "string option"
  produk :: "string option"
  kapasitas_produksi :: "int option"
  satuan_produksi :: "string option"
  periode_operasi :: "int option"
  satuan_periode :: "string option"
  hari_kerja_per_minggu :: "int option"
  total_produksi :: "int option"
  rab :: "int option"
  biaya_tetap :: "int option"
  biaya_variabel :: "int option"
  modal_awal :: "int option"
  target_pendapatan :: "int option"
  jumlah_karyawan :: "int option"
  status :: "string option"
  tanggal_daftar :: "string option"
  created_at :: "string option"
  updated_at :: "string option"
  user_id :: "string option"

record UMKM_payload =
  nama_usaha :: string
  pemilik :: string
  nik_pemilik :: "string option"
  no_hp :: "string option"
  alamat_usaha :: "string option"
  jenis_usaha :: string
  kategori_usaha :: "string option"
  deskripsi_usaha :: "string option"
  produk :: "string option"
  kapasitas_produksi :: "int option"
  satuan_produksi :: "string option"
  periode_operasi :: "int option"
  satuan_periode :: "string option"
  hari_kerja_per_minggu :: "int option"
  total_produksi :: "int option"
  rab :: "int option"
  biaya_tetap :: "int option"
  biaya_variabel :: "int option"
  modal_awal :: "int option"
  target_pendapatan :: "int option"
  jumlah_karyawan :: "int option"
  status :: string
  tanggal_daftar :: "string option"
  user_id :: "string option"

record UMKM = UMKM_payload +
  id' :: "string option"
  created_at :: "string option"
  updated_at :: "string option"

section \<open>Users and the browser's storage\<close>

text \<open>
  The interface \<^verbatim>\<open>User\<close> of the session module. Its field \<^verbatim>\<open>id\<close> is written
  \<open>id'\<close>; a missing or empty \<^verbatim>\<open>id\<close> of a stored entry is the empty string (both
  are falsy and both fail the UUID pattern). An entry of the registry
  \<^verbatim>\<open>registered_users\<close> is a user together with its plaintext password.
  \<open>RegisterData\<close> is the argument of \<^verbatim>\<open>register\<close>.
\<close>

record RegisterData =
  username :: string
  password :: string
  name :: string
  rw :: string

datatype role = Admin | User

record user =
  id' :: string
  username :: string
  name :: string
  role :: role
  rw :: "string option"
  created_at :: "string option"
  must_change_password :: "bool option"
  last_password_change :: "string option"

record registered_user = user +
  password :: string

text \<open>
  The state that the two modules share: the four keys of \<^verbatim>\<open>localStorage\<close>
  (a missing key reads as the empty list, no value or the empty object, as the
  \<^verbatim>\<open>|| "[]"\<close> and \<^verbatim>\<open>|| "{}"\<close> of the source make it) and the React state
  \<^verbatim>\<open>user\<close> of \<^verbatim>\<open>AuthProvider\<close>.
\<close>

record state =
  ls_umkm :: "UMKM list"
  ls_registered_users :: "registered_user list"
  ls_auth_user :: "user option"
  ls_admin_passwords :: "string \<rightharpoonup> string"
  current_user :: "user option"

text \<open>
  The environment of the record store: \<^verbatim>\<open>hasSupabase\<close> tells whether the two
  configuration strings are set, \<open>window\<close> whether \<^verbatim>\<open>typeof window\<close> is defined
  (the browser) or not (server-side rendering).
\<close>

record env =
  hasSupabase :: bool
  window :: bool

section \<open>Errors and the remote backend\<close>

text \<open>
  A raised value is either \<^verbatim>\<open>new Error(message)\<close> or the error object that the
  backend put into its response, kept by its message.
\<close>

datatype error = Error string | BackendError string

definition NotFoundOrForbidden :: error where
  "NotFoundOrForbidden = Error ''Data tidak ditemukan atau tidak memiliki akses''"

definition InvalidUserId :: error where
  "InvalidUserId = Error ''User ID tidak valid untuk operasi Supabase''"

definition ReferenceError :: error where
  "ReferenceError = Error ''localStorage is not defined''"

text \<open>
  The hosted backend is reached through the query builder of the client library and
  is not part of the repository. An awaited query either yields an object
  \<^verbatim>\<open>{ data, error }\<close> or throws. The backend is a parameter of the model: one
  function for each query that the source builds, from the arguments of the query
  to the outcome of awaiting it.
  \<^item> \<open>users_select_id cs\<close>: \<^verbatim>\<open>from("users").select("id")\<close> with the filters \<open>cs\<close>;
    the data are the \<^verbatim>\<open>id\<close> fields of the rows;
  \<^item> \<open>umkm_select_ordered cs\<close>:
    \<^verbatim>\<open>from("umkm").select("*").order("created_at", { ascending: false })\<close> with \<open>cs\<close>;
  \<^item> \<open>umkm_select_single cs\<close>: \<^verbatim>\<open>from("umkm").select("*")\<close> with \<open>cs\<close>, \<^verbatim>\<open>.single()\<close>;
  \<^item> \<open>umkm_insert_single row\<close>: \<^verbatim>\<open>from("umkm").insert([row]).select().single()\<close>;
  \<^item> \<open>umkm_update_single patch cs\<close>:
    \<^verbatim>\<open>from("umkm").update(patch)\<close> with \<open>cs\<close>, \<^verbatim>\<open>.select().single()\<close>;
  \<^item> \<open>umkm_delete cs\<close>: \<^verbatim>\<open>from("umkm").delete()\<close> with \<open>cs\<close>.
\<close>

datatype cond = Eq string string | In string "string list"

datatype 'a response = Response "'a option" "error option" | Thrown error

text \<open>The error that an awaited query reports: the \<^verbatim>\<open>error\<close> of its response, or
  what it throws.\<close>

definition reported :: "'a response \<Rightarrow> error option" where
  "reported r = (case r of Thrown ex \<Rightarrow> Some ex | Response d err \<Rightarrow> err)"

record backend =
  users_select_id :: "cond list \<Rightarrow> string list response"
  umkm_select_ordered :: "cond list \<Rightarrow> UMKM list response"
  umkm_select_single :: "cond list \<Rightarrow> UMKM response"
  umkm_insert_single :: "UMKM_payload \<Rightarrow> UMKM response"
  umkm_update_single :: "Partial_UMKM \<Rightarrow> cond list \<Rightarrow> UMKM response"
  umkm_delete :: "cond list \<Rightarrow> unit response"

section \<open>The record store \<^verbatim>\<open>umkmService\<close> (src/lib/supabase.ts, lines 77-287)\<close>

text \<open>
  The operations branch on \<^verbatim>\<open>hasSupabase\<close> first. In the remote branches it holds,
  so \<^verbatim>\<open>supabase()\<close> returns the client and cannot throw; the call is left out.
\<close>

text \<open>JavaScript truthiness of a \<^verbatim>\<open>string | undefined\<close>.\<close>

definition truthy :: "string option \<Rightarrow> bool" where
  "truthy v = (case v of None \<Rightarrow> False | Some s \<Rightarrow> s \<noteq> [])"

text \<open>The string that a truthy \<^verbatim>\<open>string | undefined\<close> holds.\<close>

definition str :: "string option \<Rightarrow> string" where
  "str v = (case v of None \<Rightarrow> [] | Some s \<Rightarrow> s)"

text \<open>\<^verbatim>\<open>ids.includes(v)\<close> for a list of strings and a \<^verbatim>\<open>string | undefined\<close>.
  Every entry of the list is a string: the registry entries are taken to have their
  \<^verbatim>\<open>id\<close>, as \<^verbatim>\<open>register\<close> writes it, so an absent \<^verbatim>\<open>user_id\<close> is in no list.\<close>

definition includes' :: "string list \<Rightarrow> string option \<Rightarrow> bool" where
  "includes' ids v = (case v of None \<Rightarrow> False | Some x \<Rightarrow> x \<in> set ids)"

text \<open>\<^verbatim>\<open>Array.prototype.findIndex\<close>; \<open>None\<close> is the result \<^verbatim>\<open>-1\<close>.\<close>

fun findIndex :: "('a \<Rightarrow> bool) \<Rightarrow> 'a list \<Rightarrow> nat option" where
  "findIndex P [] = None"
| "findIndex P (x # xs) = (if P x then Some 0 else map_option Suc (findIndex P xs))"

text \<open>\<^verbatim>\<open>Date.now().toString()\<close>: the decimal digits of the clock's milliseconds.\<close>

function toString10 :: "nat \<Rightarrow> string" where
  "toString10 n =
     (if n < 10 then [''0123456789'' ! n]
      else toString10 (n div 10) @ [''0123456789'' ! (n mod 10)])"
  by pat_completeness auto
termination
  by (relation "measure (\<lambda>n. n)") auto

declare toString10.simps [simp del]

definition ls_all :: "env \<Rightarrow> state \<Rightarrow> UMKM list" where
  "ls_all e s = (if \<not> window e then [] else ls_umkm s)"

definition ls_save :: "env \<Rightarrow> UMKM list \<Rightarrow> state \<Rightarrow> state" where
  "ls_save e list s = (if window e then s\<lparr>ls_umkm := list\<rparr> else s)"

text \<open>
  The object spread \<^verbatim>\<open>{ ...item, ...payload }\<close>: a key present in the payload
  replaces the item's value, an absent one leaves it. In \<open>Partial_UMKM\<close> the value
  \<open>None\<close> is an absent key; a key that is present with the value \<^verbatim>\<open>undefined\<close>,
  which would remove the item's value, is not a payload of the model.
\<close>

definition ovr :: "'a \<Rightarrow> 'a option \<Rightarrow> 'a" where
  "ovr old new = (case new of None \<Rightarrow> old | Some v \<Rightarrow> v)"

definition ovr_opt :: "'a option \<Rightarrow> 'a option \<Rightarrow> 'a option" where
  "ovr_opt old new = (case new of None \<Rightarrow> old | Some v \<Rightarrow> Some v)"

definition spread :: "UMKM \<Rightarrow> Partial_UMKM \<Rightarrow> UMKM" where
  "spread item p = item
     \<lparr> nama_usaha := ovr (nama_usaha item) (Partial_UMKM.nama_usaha p),
       pemilik := ovr (pemilik item) (Partial_UMKM.pemilik p),
       nik_pemilik := ovr_opt (nik_pemilik item) (Partial_UMKM.nik_pemilik p),
       no_hp := ovr_opt (no_hp item) (Partial_UMKM.no_hp p),
       alamat_usaha := ovr_opt (alamat_usaha item) (Partial_UMKM.alamat_usaha p),
       jenis_usaha := ovr (jenis_usaha item) (Partial_UMKM.jenis_usaha p),
       kategori_usaha := ovr_opt (kategori_usaha item) (Partial_UMKM.kategori_usaha p),
       deskripsi_usaha := ovr_opt (deskripsi_usaha item) (Partial_UMKM.deskripsi_usaha p),
       produk := ovr_opt (produk item) (Partial_UMKM.produk p),
       kapasitas_produksi :=
         ovr_opt (kapasitas_produksi item) (Partial_UMKM.kapasitas_produksi p),
       satuan_produksi := ovr_opt (satuan_produksi item) (Partial_UMKM.satuan_produksi p),
       periode_operasi := ovr_opt (periode_operasi item) (Partial_UMKM.periode_operasi p),
       satuan_periode := ovr_opt (satuan_periode item) (Partial_UMKM.satuan_periode p),
       hari_kerja_per_minggu :=
         ovr_opt (hari_kerja_per_minggu item) (Partial_UMKM.hari_kerja_per_minggu p),
       total_produksi := ovr_opt (total_produksi item) (Partial_UMKM.total_produksi p),
       rab := ovr_opt (rab item) (Partial_UMKM.rab p),
       biaya_tetap := ovr_opt (biaya_tetap item) (Partial_UMKM.biaya_tetap p),
       biaya_variabel := ovr_opt (biaya_variabel item) (Partial_UMKM.biaya_variabel p),
       modal_awal := ovr_opt (modal_awal item) (Partial_UMKM.modal_awal p),
       target_pendapatan :=
         ovr_opt (target_pendapatan item) (Partial_UMKM.target_pendapatan p),
       jumlah_karyawan := ovr_opt (jumlah_karyawan item) (Partial_UMKM.jumlah_karyawan p),
       status := ovr (status item) (Partial_UMKM.status p),
       tanggal_daftar := ovr_opt (tanggal_daftar item) (Partial_UMKM.tanggal_daftar p),
       user_id := ovr_opt (user_id item) (Partial_UMKM.user_id p),
       UMKM.id' := ovr_opt (UMKM.id' item) (Partial_UMKM.id' p),
       UMKM.created_at := ovr_opt (UMKM.created_at item) (Partial_UMKM.created_at p),
       updated_at := ovr_opt (updated_at item) (Partial_UMKM.updated_at p) \<rparr>"

subsection \<open>\<^verbatim>\<open>getAll\<close> (lines 93-143)\<close>

text \<open>
  Awaiting the ordered query of \<^verbatim>\<open>getAll\<close>, with the handling that follows it: an
  error of the response, and anything thrown (the \<^verbatim>\<open>catch\<close>), gives the empty
  list; \<^verbatim>\<open>data ?? []\<close> turns missing data into the empty list.
\<close>

definition await_rows :: "backend \<Rightarrow> cond list \<Rightarrow> UMKM list" where
  "await_rows be cs =
     (case umkm_select_ordered be cs of
        Thrown ex \<Rightarrow> []
      | Response d err \<Rightarrow>
          (case err of
             Some er \<Rightarrow> []
           | None \<Rightarrow> (case d of None \<Rightarrow> [] | Some rows \<Rightarrow> rows)))"

definition getAll ::
  "env \<Rightarrow> backend \<Rightarrow> state \<Rightarrow> string option \<Rightarrow> string option \<Rightarrow> error + UMKM list" where
  "getAll e be s userId adminRW =
     (if \<not> hasSupabase e then
        (let allData = ls_all e s in
         if truthy adminRW then
           (if \<not> window e then Inl ReferenceError
            else
              (let users = ls_registered_users s;
                   rwUsers = map user.id' (filter (\<lambda>u. rw u = adminRW) users)
               in Inr (filter (\<lambda>item. includes' rwUsers (user_id item)) allData)))
         else if truthy userId then Inr (filter (\<lambda>item. user_id item = userId) allData)
         else Inr allData)
      else if truthy adminRW then
        (case users_select_id be [Eq ''rw'' (str adminRW)] of
           Thrown ex \<Rightarrow> Inr []
         | Response rwUsers userError \<Rightarrow>
             (case userError of
                Some er \<Rightarrow> Inr []
              | None \<Rightarrow>
                  (case rwUsers of
                     None \<Rightarrow> Inr []
                   | Some userIds \<Rightarrow>
                       if userIds \<noteq> []
                       then Inr (await_rows be [In ''user_id'' userIds])
                       else Inr [])))
      else if truthy userId then
        (if \<not> isValidUUID userId then Inr []
         else Inr (await_rows be [Eq ''user_id'' (str userId)]))
      else Inr (await_rows be []))"

subsection \<open>\<^verbatim>\<open>create\<close> (lines 146-178)\<close>

text \<open>The row of line 165:
  \<^verbatim>\<open>{ ...dataWithUser, tanggal_daftar: dataWithUser.tanggal_daftar || new Date().toISOString() }\<close>.\<close>

definition insert_row :: "UMKM_payload \<Rightarrow> string \<Rightarrow> UMKM_payload" where
  "insert_row dataWithUser now_iso =
     dataWithUser\<lparr>tanggal_daftar :=
       (if truthy (tanggal_daftar dataWithUser) then tanggal_daftar dataWithUser
        else Some now_iso)\<rparr>"

text \<open>
  \<open>rnd\<close> is the randomness of \<^verbatim>\<open>generateUUID\<close>, \<open>now_ms\<close> the reading of
  \<^verbatim>\<open>Date.now()\<close> and \<open>now_iso\<close> that of \<^verbatim>\<open>new Date().toISOString()\<close>.
\<close>

definition create ::
  "env \<Rightarrow> backend \<Rightarrow> state \<Rightarrow> UMKM_payload \<Rightarrow> string \<Rightarrow> (nat \<Rightarrow> 4 word) \<Rightarrow> nat \<Rightarrow> string
     \<Rightarrow> (error + UMKM option) \<times> state" where
  "create e be s payload userId rnd now_ms now_iso =
     (let validUserId = ensureValidUUID rnd (Some userId);
          dataWithUser = payload\<lparr>user_id := Some validUserId\<rparr>
      in
        if \<not> hasSupabase e then
          (let list = ls_all e s;
               newItem = UMKM_payload.extend dataWithUser
                 (UMKM.fields (Some (toString10 now_ms)) None None)
           in (Inr (Some newItem), ls_save e (newItem # list) s))
        else
          (case umkm_insert_single be (insert_row dataWithUser now_iso) of
             Thrown ex \<Rightarrow> (Inl ex, s)
           | Response d err \<Rightarrow>
               (case err of Some er \<Rightarrow> (Inl er, s) | None \<Rightarrow> (Inr d, s))))"

subsection \<open>\<^verbatim>\<open>update\<close> (lines 181-217)\<close>

definition update ::
  "env \<Rightarrow> backend \<Rightarrow> state \<Rightarrow> string \<Rightarrow> Partial_UMKM \<Rightarrow> string \<Rightarrow> string
     \<Rightarrow> (error + UMKM option) \<times> state" where
  "update e be s ident payload userId now_iso =
     (if \<not> hasSupabase e then
        (let list = ls_all e s in
         case findIndex (\<lambda>u. UMKM.id' u = Some ident \<and> user_id u = Some userId) list of
           None \<Rightarrow> (Inl NotFoundOrForbidden, s)
         | Some itemIndex \<Rightarrow>
             (let list' = list[itemIndex := spread (list ! itemIndex) payload]
              in (Inr (Some (list' ! itemIndex)), ls_save e list' s)))
      else if \<not> isValidUUID (Some userId) then (Inl InvalidUserId, s)
      else
        (case umkm_update_single be (payload\<lparr>Partial_UMKM.updated_at := Some now_iso\<rparr>)
                [Eq ''id'' ident, Eq ''user_id'' userId] of
           Thrown ex \<Rightarrow> (Inl ex, s)
         | Response d err \<Rightarrow>
             (case err of Some er \<Rightarrow> (Inl er, s) | None \<Rightarrow> (Inr d, s))))"

subsection \<open>\<^verbatim>\<open>delete\<close> (lines 220-250)\<close>

definition delete ::
  "env \<Rightarrow> backend \<Rightarrow> state \<Rightarrow> string \<Rightarrow> string \<Rightarrow> (error + bool) \<times> state" where
  "delete e be s ident userId =
     (if \<not> hasSupabase e then
        (let list = ls_all e s;
             filteredList =
               filter (\<lambda>u. \<not> (UMKM.id' u = Some ident \<and> user_id u = Some userId)) list
         in if length filteredList = length list then (Inl NotFoundOrForbidden, s)
            else (Inr True, ls_save e filteredList s))
      else if \<not> isValidUUID (Some userId) then (Inl InvalidUserId, s)
      else
        (case umkm_delete be [Eq ''id'' ident, Eq ''user_id'' userId] of
           Thrown ex \<Rightarrow> (Inl ex, s)
         | Response d err \<Rightarrow>
             (case err of Some er \<Rightarrow> (Inl er, s) | None \<Rightarrow> (Inr True, s))))"

subsection \<open>\<^verbatim>\<open>getById\<close> (lines 253-286)\<close>

definition await_single :: "backend \<Rightarrow> cond list \<Rightarrow> UMKM option" where
  "await_single be cs =
     (case umkm_select_single be cs of
        Thrown ex \<Rightarrow> None
      | Response d err \<Rightarrow> (case err of Some er \<Rightarrow> None | None \<Rightarrow> d))"

definition getById ::
  "env \<Rightarrow> backend \<Rightarrow> state \<Rightarrow> string \<Rightarrow> string option \<Rightarrow> UMKM option" where
  "getById e be s ident userId =
     (if \<not> hasSupabase e then
        (let item = find (\<lambda>u. UMKM.id' u = Some ident) (ls_all e s) in
         case item of
           None \<Rightarrow> None
         | Some it \<Rightarrow> if truthy userId \<and> user_id it \<noteq> userId then None else Some it)
      else if truthy userId then
        (if \<not> isValidUUID userId then None
         else await_single be [Eq ''id'' ident, Eq ''user_id'' (str userId)])
      else await_single be [Eq ''id'' ident])"

section \<open>The session manager \<^verbatim>\<open>AuthProvider\<close> (second module, lines 288-595)\<close>

text \<open>
  The four operations of the provider are modelled. The effect that runs once when
  the provider mounts (lines 359-410), which gives stored identities a UUID where they
  have none, comes before any of them and is not part of the model.
\<close>

definition admin_rw01 :: user where
  "admin_rw01 =
     \<lparr> id' = ''550e8400-e29b-41d4-a716-446655440001'',
       username = ''admin'',
       name = ''Ketua RW 01'',
       role = Admin,
       rw = Some ''01'',
       created_at = Some ''2024-01-01T00:00:00Z'',
       must_change_password = Some True,
       last_password_change = None \<rparr>"

definition admin_rw04 :: user where
  "admin_rw04 =
     \<lparr> id' = ''550e8400-e29b-41d4-a716-446655440004'',
       username = ''admin'',
       name = ''Ketua RW 04'',
       role = Admin,
       rw = Some ''04'',
       created_at = Some ''2024-01-01T00:00:00Z'',
       must_change_password = Some True,
       last_password_change = None \<rparr>"

definition ADMIN_USERS :: "user list" where
  "ADMIN_USERS = [admin_rw01, admin_rw04]"

definition DEFAULT_ADMIN_PASSWORD :: string where
  "DEFAULT_ADMIN_PASSWORD = ''admin''"

text \<open>The pair \<^verbatim>\<open>{ success, message }\<close> that \<^verbatim>\<open>register\<close> and
  \<^verbatim>\<open>changePassword\<close> return.\<close>

record outcome =
  success :: bool
  message :: string

text \<open>\<^verbatim>\<open>setUser(u); localStorage.setItem("auth_user", JSON.stringify(u))\<close>.\<close>

definition set_session :: "user \<Rightarrow> state \<Rightarrow> state" where
  "set_session u s = s\<lparr>current_user := Some u, ls_auth_user := Some u\<rparr>"

subsection \<open>\<^verbatim>\<open>login\<close> (lines 412-478)\<close>

text \<open>
  The scan of the registry, lines 456-477. \<^verbatim>\<open>users.find\<close> yields the first entry
  with the given name and password, by reference: \<open>j\<close> is its index. When its
  \<^verbatim>\<open>id\<close> is not a UUID, the entry gets a fresh one in place, and the same object is
  also stored at the index \<open>i\<close> of the first entry with that name. The session
  holds the entry without its password.
\<close>

definition login_registered ::
  "state \<Rightarrow> string \<Rightarrow> string \<Rightarrow> (nat \<Rightarrow> 4 word) \<Rightarrow> bool \<times> state" where
  "login_registered s uname pw rnd =
     (let users = ls_registered_users s in
      case findIndex (\<lambda>u. username u = uname \<and> password u = pw) users of
        None \<Rightarrow> (False, s)
      | Some j \<Rightarrow>
          (let foundUser = users ! j in
           if id' foundUser = [] \<or> \<not> uuid_regex (id' foundUser) then
             (let foundUser' = foundUser\<lparr>id' := generateUUID rnd\<rparr>;
                  s' = (case findIndex (\<lambda>u. username u = uname) users of
                          None \<Rightarrow> s
                        | Some i \<Rightarrow>
                            s\<lparr>ls_registered_users :=
                                 (users[j := foundUser'])[i := foundUser']\<rparr>)
              in (True, set_session (user.truncate foundUser') s'))
           else (True, set_session (user.truncate foundUser) s)))"

text \<open>The loop over \<^verbatim>\<open>ADMIN_USERS\<close> of lines 444-452: the first privileged account
  whose stored custom password is truthy and equals the given one.\<close>

fun custom_admin :: "(string \<rightharpoonup> string) \<Rightarrow> string \<Rightarrow> user list \<Rightarrow> user option" where
  "custom_admin adminPasswords pw [] = None"
| "custom_admin adminPasswords pw (admin # rest) =
     (let customPassword = adminPasswords (id' admin) in
      if truthy customPassword \<and> Some pw = customPassword
      then Some (admin\<lparr>must_change_password := Some False\<rparr>)
      else custom_admin adminPasswords pw rest)"

text \<open>
  Lines 427-440, once the jurisdiction is selected: the privileged account of that
  jurisdiction logs in with the default password unless a custom password is stored
  for it.
\<close>

definition login_default_admin ::
  "state \<Rightarrow> string \<Rightarrow> string \<Rightarrow> string \<Rightarrow> (nat \<Rightarrow> 4 word) \<Rightarrow> bool \<times> state" where
  "login_default_admin s selectedRW uname pw rnd =
     (case find (\<lambda>admin. rw admin = Some selectedRW) ADMIN_USERS of
        Some adminUser \<Rightarrow>
          (let hasCustomPassword = ls_admin_passwords s (id' adminUser) in
           if truthy hasCustomPassword then (False, s)
           else (True, set_session adminUser s))
      | None \<Rightarrow> login_registered s uname pw rnd)"

text \<open>
  \<open>rwChoice\<close> is what \<^verbatim>\<open>prompt\<close> returns (\<open>None\<close> when the dialog is cancelled);
  it is read only on the path of the default password. Every path of the
  \<^verbatim>\<open>admin\<close> branch that does not return falls through to the scan of the registry.
\<close>

definition login ::
  "state \<Rightarrow> string \<Rightarrow> string \<Rightarrow> string option \<Rightarrow> (nat \<Rightarrow> 4 word) \<Rightarrow> bool \<times> state" where
  "login s uname pw rwChoice rnd =
     (if uname = ''admin'' then
        (if pw = DEFAULT_ADMIN_PASSWORD then
           (if rwChoice = Some ''1'' then login_default_admin s ''01'' uname pw rnd
            else if rwChoice = Some ''2'' then login_default_admin s ''04'' uname pw rnd
            else (False, s))
         else
           (case custom_admin (ls_admin_passwords s) pw ADMIN_USERS of
              Some updatedAdmin \<Rightarrow> (True, set_session updatedAdmin s)
            | None \<Rightarrow> login_registered s uname pw rnd))
      else login_registered s uname pw rnd)"

subsection \<open>\<^verbatim>\<open>register\<close> (lines 480-506)\<close>

definition register ::
  "state \<Rightarrow> RegisterData \<Rightarrow> (nat \<Rightarrow> 4 word) \<Rightarrow> string \<Rightarrow> outcome \<times> state" where
  "register s userData rnd now_iso =
     (if RegisterData.username userData = ''admin'' then
        (\<lparr>success = False, message = ''Username tidak tersedia''\<rparr>, s)
      else
        (let users = ls_registered_users s in
         case find (\<lambda>u. username u = RegisterData.username userData) users of
           Some existingUser \<Rightarrow>
             (\<lparr>success = False, message = ''Username sudah digunakan''\<rparr>, s)
         | None \<Rightarrow>
             (let newUser =
                    \<lparr> id' = generateUUID rnd,
                      username = RegisterData.username userData,
                      name = RegisterData.name userData,
                      role = User,
                      rw = Some (RegisterData.rw userData),
                      created_at = Some now_iso,
                      must_change_password = None,
                      last_password_change = None,
                      password = RegisterData.password userData \<rparr>
              in (\<lparr>success = True, message = ''Registrasi berhasil! Silakan login.''\<rparr>,
                  s\<lparr>ls_registered_users := users @ [newUser]\<rparr>))))"

subsection \<open>\<^verbatim>\<open>logout\<close> (lines 508-511)\<close>

definition logout :: "state \<Rightarrow> state" where
  "logout s = s\<lparr>current_user := None, ls_auth_user := None\<rparr>"

subsection \<open>\<^verbatim>\<open>changePassword\<close> (lines 513-575)\<close>

text \<open>\<^verbatim>\<open>newPassword.length\<close> counts the characters of the (ASCII) password.\<close>

definition changePassword ::
  "state \<Rightarrow> string \<Rightarrow> string \<Rightarrow> string \<Rightarrow> outcome \<times> state" where
  "changePassword s oldPassword newPassword now_iso =
     (case current_user s of
        None \<Rightarrow> (\<lparr>success = False, message = ''User tidak ditemukan''\<rparr>, s)
      | Some usr \<Rightarrow>
          if role usr = Admin then
            (let adminPasswords = ls_admin_passwords s;
                 currentPassword =
                   (if truthy (adminPasswords (id' usr)) then str (adminPasswords (id' usr))
                    else DEFAULT_ADMIN_PASSWORD)
             in
               if oldPassword \<noteq> currentPassword then
                 (\<lparr>success = False, message = ''Password lama tidak benar''\<rparr>, s)
               else if length newPassword < 6 then
                 (\<lparr>success = False, message = ''Password baru minimal 6 karakter''\<rparr>, s)
               else if oldPassword = newPassword then
                 (\<lparr>success = False,
                   message = ''Password baru harus berbeda dari password lama''\<rparr>, s)
               else
                 (let updatedUser = usr\<lparr>must_change_password := Some False,
                                         last_password_change := Some now_iso\<rparr>
                  in (\<lparr>success = True, message = ''Password berhasil diubah''\<rparr>,
                      set_session updatedUser
                        (s\<lparr>ls_admin_passwords :=
                             adminPasswords(id' usr \<mapsto> newPassword)\<rparr>))))
          else
            (let users = ls_registered_users s in
             case findIndex (\<lambda>u. id' u = id' usr) users of
               None \<Rightarrow> (\<lparr>success = False, message = ''User tidak ditemukan''\<rparr>, s)
             | Some userIndex \<Rightarrow>
                 if oldPassword \<noteq> password (users ! userIndex) then
                   (\<lparr>success = False, message = ''Password lama tidak benar''\<rparr>, s)
                 else if length newPassword < 6 then
                   (\<lparr>success = False, message = ''Password baru minimal 6 karakter''\<rparr>, s)
                 else if oldPassword = newPassword then
                   (\<lparr>success = False,
                     message = ''Password baru harus berbeda dari password lama''\<rparr>, s)
                 else
                   (\<lparr>success = True, message = ''Password berhasil diubah''\<rparr>,
                    s\<lparr>ls_registered_users :=
                         users[userIndex := (users ! userIndex)
                                 \<lparr>password := newPassword,
                                  last_password_change := Some now_iso\<rparr>]\<rparr>)))"

subsection \<open>Runs of the session manager\<close>

text \<open>A call of one of the four operations, with what it reads from its
  surroundings (the prompt's answer, the randomness, the clock).\<close>

datatype call =
    Register RegisterData "nat \<Rightarrow> 4 word" string
  | Login string string "string option" "nat \<Rightarrow> 4 word"
  | Logout
  | ChangePassword string string string

fun step :: "state \<Rightarrow> call \<Rightarrow> state" where
  "step s (Register userData rnd now_iso) = snd (register s userData rnd now_iso)"
| "step s (Login uname pw rwChoice rnd) = snd (login s uname pw rwChoice rnd)"
| "step s Logout = logout s"
| "step s (ChangePassword oldPassword newPassword now_iso) =
     snd (changePassword s oldPassword newPassword now_iso)"

definition run :: "state \<Rightarrow> call list \<Rightarrow> state" where
  "run s calls = foldl step s calls"

subsection \<open>Notions for the claims about sessions\<close>

text \<open>The privileged account that an answer to the prompt selects (lines 417-427):
  \<^verbatim>\<open>"1"\<close> is the jurisdiction 01, \<^verbatim>\<open>"2"\<close> the jurisdiction 04, anything else none.\<close>

definition selected_admin :: "string option \<Rightarrow> user option" where
  "selected_admin rwChoice =
     (if rwChoice = Some ''1'' then find (\<lambda>admin. rw admin = Some ''01'') ADMIN_USERS
      else if rwChoice = Some ''2'' then find (\<lambda>admin. rw admin = Some ''04'') ADMIN_USERS
      else None)"

text \<open>
  An identity is one of the predefined privileged accounts when it equals an entry of
  \<^verbatim>\<open>ADMIN_USERS\<close> up to the two bookkeeping fields of the password change.
\<close>

definition is_predefined :: "user \<Rightarrow> bool" where
  "is_predefined u =
     (\<exists>a \<in> set ADMIN_USERS.
        u\<lparr>must_change_password := must_change_password a,
          last_password_change := last_password_change a\<rparr> = a)"

definition admin_is_predefined :: "user option \<Rightarrow> bool" where
  "admin_is_predefined session =
     (case session of None \<Rightarrow> True | Some u \<Rightarrow> role u = Admin \<longrightarrow> is_predefined u)"

text \<open>The registry holds only non-privileged users, none of them named \<^verbatim>\<open>admin\<close>.\<close>

definition registry_ok :: "registered_user list \<Rightarrow> bool" where
  "registry_ok users = (\<forall>u \<in> set users. role u = User \<and> username u \<noteq> ''admin'')"

definition session_inv :: "state \<Rightarrow> bool" where
  "session_inv s =
     (registry_ok (ls_registered_users s)
      \<and> admin_is_predefined (current_user s)
      \<and> admin_is_predefined (ls_auth_user s))"

section \<open>Example data\<close>

text \<open>The two modes of the store, in the browser.\<close>

definition local_env :: env where
  "local_env = \<lparr>hasSupabase = False, window = True\<rparr>"

definition remote_env :: env where
  "remote_env = \<lparr>hasSupabase = True, window = True\<rparr>"

text \<open>A fresh browser: nothing stored, nobody logged in.\<close>

definition fresh :: state where
  "fresh =
     \<lparr> ls_umkm = [], ls_registered_users = [], ls_auth_user = None,
       ls_admin_passwords = Map.empty, current_user = None \<rparr>"

text \<open>The payload \<^verbatim>\<open>{name: "Toko Bunga", owner: "Budi", type: "Retail", status: "active"}\<close>.\<close>

definition toko_bunga :: UMKM_payload where
  "toko_bunga =
     \<lparr> nama_usaha = ''Toko Bunga'', pemilik = ''Budi'', nik_pemilik = None, no_hp = None,
       alamat_usaha = None, jenis_usaha = ''Retail'', kategori_usaha = None,
       deskripsi_usaha = None, produk = None, kapasitas_produksi = None,
       satuan_produksi = None, periode_operasi = None, satuan_periode = None,
       hari_kerja_per_minggu = None, total_produksi = None, rab = None,
       biaya_tetap = None, biaya_variabel = None, modal_awal = None,
       target_pendapatan = None, jumlah_karyawan = None, status = ''active'',
       tanggal_daftar = None, user_id = None \<rparr>"

text \<open>The empty update payload \<^verbatim>\<open>{}\<close>, and the payload \<^verbatim>\<open>{status: "inactive"}\<close>.\<close>

definition no_change :: Partial_UMKM where
  "no_change =
     \<lparr> Partial_UMKM.id' = None, nama_usaha = None, pemilik = None, nik_pemilik = None,
       no_hp = None, alamat_usaha = None, jenis_usaha = None, kategori_usaha = None,
       deskripsi_usaha = None, produk = None, kapasitas_produksi = None,
       satuan_produksi = None, periode_operasi = None, satuan_periode = None,
       hari_kerja_per_minggu = None, total_produksi = None, rab = None,
       biaya_tetap = None, biaya_variabel = None, modal_awal = None,
       target_pendapatan = None, jumlah_karyawan = None, status = None,
       tanggal_daftar = None, created_at = None, updated_at = None, user_id = None \<rparr>"

definition set_inactive :: Partial_UMKM where
  "set_inactive = no_change\<lparr>Partial_UMKM.status := Some ''inactive''\<rparr>"

text \<open>Two owners with well-formed identifiers, and a stored record of the first.\<close>

definition budi :: string where
  "budi = ''11111111-1111-4111-8111-111111111111''"

definition siti :: string where
  "siti = ''22222222-2222-4222-8222-222222222222''"

definition toko_bunga_stored :: UMKM where
  "toko_bunga_stored =
     UMKM_payload.extend (toko_bunga\<lparr>user_id := Some budi\<rparr>)
       (UMKM.fields (Some ''1700000000000'') None None)"

definition one_record :: state where
  "one_record = fresh\<lparr>ls_umkm := [toko_bunga_stored]\<rparr>"

text \<open>A store whose first record was created before its second one.\<close>

definition older :: UMKM where
  "older = toko_bunga_stored\<lparr>UMKM.created_at := Some ''2024-01-01T00:00:00.000Z''\<rparr>"

definition newer :: UMKM where
  "newer = toko_bunga_stored
     \<lparr>UMKM.id' := Some ''1717200000000'',
      UMKM.created_at := Some ''2024-06-01T00:00:00.000Z''\<rparr>"

definition oldest_first :: state where
  "oldest_first = fresh\<lparr>ls_umkm := [older, newer]\<rparr>"

text \<open>A registration, and the state in which the privileged account of the
  jurisdiction 01 is logged in.\<close>

definition budi_data :: RegisterData where
  "budi_data =
     \<lparr> RegisterData.username = ''budi'', password = ''rahasia'',
       name = ''Budi'', rw = ''01'' \<rparr>"

definition admin_session :: state where
  "admin_session = set_session admin_rw01 fresh"

text \<open>The user that the registration above creates when every random draw is 0,
  and the state after that registration and a login of the user.\<close>

definition budi_user :: user where
  "budi_user =
     \<lparr> id' = ''00000000-0000-4000-8000-000000000000'', username = ''budi'',
       name = ''Budi'', role = User, rw = Some ''01'',
       created_at = Some ''2024-07-01T00:00:00.000Z'',
       must_change_password = None, last_password_change = None \<rparr>"

definition budi_session :: state where
  "budi_session =
     \<lparr> ls_umkm = [],
       ls_registered_users = [user.extend budi_user (registered_user.fields ''rahasia'')],
       ls_auth_user = Some budi_user,
       ls_admin_passwords = Map.empty,
       current_user = Some budi_user \<rparr>"

text \<open>Randomness that always draws 0, and one that counts up.\<close>

definition zeros :: "nat \<Rightarrow> 4 word" where
  "zeros k = 0"

definition counting :: "nat \<Rightarrow> 4 word" where
  "counting k = of_nat k"

text \<open>A run: a user registers, logs in and out, then a privileged account logs in.\<close>

definition demo_calls :: "call list" where
  "demo_calls =
     [ Register budi_data zeros ''2024-07-01T00:00:00.000Z'',
       Login ''budi'' ''rahasia'' None zeros,
       Logout,
       Login ''admin'' ''admin'' (Some ''1'') zeros ]"

text \<open>
  Two backends. \<open>backend_down\<close> answers every query with an error.
  \<open>backend_empty\<close> holds no rows: a selection yields nothing, \<^verbatim>\<open>.single()\<close> finds no
  row and reports that, an insertion yields the new row, a deletion removes nothing
  and reports no error.
\<close>

definition unreachable :: error where
  "unreachable = BackendError ''connection refused''"

definition backend_down :: backend where
  "backend_down =
     \<lparr> users_select_id = (\<lambda>cs. Response None (Some unreachable)),
       umkm_select_ordered = (\<lambda>cs. Response None (Some unreachable)),
       umkm_select_single = (\<lambda>cs. Response None (Some unreachable)),
       umkm_insert_single = (\<lambda>row. Response None (Some unreachable)),
       umkm_update_single = (\<lambda>patch cs. Response None (Some unreachable)),
       umkm_delete = (\<lambda>cs. Response None (Some unreachable)) \<rparr>"

text \<open>A backend that answers the selection of users with one identifier and every
  other query with an error.\<close>

definition backend_users_only :: backend where
  "backend_users_only =
     backend_down\<lparr>users_select_id := (\<lambda>cs. Response (Some [budi]) None)\<rparr>"

definition no_rows :: error where
  "no_rows = BackendError ''JSON object requested, multiple (or no) rows returned''"

definition backend_empty :: backend where
  "backend_empty =
     \<lparr> users_select_id = (\<lambda>cs. Response (Some []) None),
       umkm_select_ordered = (\<lambda>cs. Response (Some []) None),
       umkm_select_single = (\<lambda>cs. Response None (Some no_rows)),
       umkm_insert_single =
         (\<lambda>row. Response
            (Some (UMKM_payload.extend row
               (UMKM.fields (Some ''33333333-3333-4333-8333-333333333333'')
                  (Some ''2024-05-01T08:00:00.000Z'') (Some ''2024-05-01T08:00:00.000Z''))))
            None),
       umkm_update_single = (\<lambda>patch cs. Response None (Some no_rows)),
       umkm_delete = (\<lambda>cs. Response None None) \<rparr>"

text \<open>
  A backend whose table holds one row, a record of the first owner: selections,
  and an update with \<^verbatim>\<open>.single()\<close>, find the row under its identifier and its
  owner and no row under another owner; a deletion reports no error, whether or
  not its filters match a row.
\<close>

definition remote_id :: string where
  "remote_id = ''33333333-3333-4333-8333-333333333333''"

definition remote_row :: UMKM where
  "remote_row =
     UMKM_payload.extend (toko_bunga\<lparr>user_id := Some budi\<rparr>)
       (UMKM.fields (Some remote_id) (Some ''2024-05-01T08:00:00.000Z'')
          (Some ''2024-05-01T08:00:00.000Z''))"

definition backend_one :: backend where
  "backend_one =
     \<lparr> users_select_id = (\<lambda>cs. Response (Some []) None),
       umkm_select_ordered =
         (\<lambda>cs. if cs = [] \<or> cs = [Eq ''user_id'' budi] then Response (Some [remote_row]) None
               else Response (Some []) None),
       umkm_select_single =
         (\<lambda>cs. if cs = [Eq ''id'' remote_id] \<or> cs = [Eq ''id'' remote_id, Eq ''user_id'' budi]
               then Response (Some remote_row) None
               else Response None (Some no_rows)),
       umkm_insert_single = (\<lambda>row. Response None (Some unreachable)),
       umkm_update_single =
         (\<lambda>patch cs. if cs = [Eq ''id'' remote_id, Eq ''user_id'' budi]
               then Response (Some (spread remote_row patch)) None
               else Response None (Some no_rows)),
       umkm_delete = (\<lambda>cs. Response None None) \<rparr>"

text \<open>A backend whose table holds the two records above; its unfiltered ordered
  selection yields the later one first.\<close>

definition backend_two :: backend where
  "backend_two = backend_empty
     \<lparr>umkm_select_ordered :=
        (\<lambda>cs. if cs = [] then Response (Some [newer, older]) None
              else Response (Some []) None)\<rparr>"

section \<open>Properties of the UUID helpers\<close>

lemma is_hex_toString16: "is_hex (toString16 v)"
proof -
  have "unat v < 16"
    using unsigned_less [of v, where ?'a = nat] by simp
  then have "toString16 v \<in> set ''0123456789abcdef''"
    unfolding toString16_def by (intro nth_mem) simp
  then show ?thesis
    by (auto simp: is_hex_def)
qed

lemma is_hex_uuid_digit: "is_hex (uuid_digit c r)"
  by (simp add: uuid_digit_def Let_def is_hex_toString16)

lemma is_hex_4: "is_hex (CHR ''4'')"
  by (simp add: is_hex_def)

lemma generateUUID_wellformed: "uuid_regex (generateUUID rnd)"
  by (simp add: generateUUID_def uuid_regex_def eval_nat_numeral
      is_hex_uuid_digit is_hex_4)

lemma generateUUID_valid: "isValidUUID (Some (generateUUID rnd))"
proof -
  have "generateUUID rnd \<noteq> []"
    by (simp add: generateUUID_def)
  then show ?thesis
    by (simp add: isValidUUID_def generateUUID_wellformed)
qed

section \<open>Helper lemmas\<close>

lemma findIndex_None_iff: "findIndex P xs = None \<longleftrightarrow> (\<forall>x \<in> set xs. \<not> P x)"
  by (induction xs) auto

lemma findIndex_Some:
  "findIndex P xs = Some i \<Longrightarrow> i < length xs \<and> P (xs ! i) \<and> (\<forall>j < i. \<not> P (xs ! j))"
proof (induction xs arbitrary: i)
  case Nil
  then show ?case by simp
next
  case (Cons x xs)
  show ?case
  proof (cases "P x")
    case True
    with Cons.prems show ?thesis by simp
  next
    case False
    with Cons.prems obtain k where k: "findIndex P xs = Some k" "i = Suc k"
      by auto
    from Cons.IH [OF k(1)] False k(2) show ?thesis
      by (auto simp: nth_Cons split: nat.splits)
  qed
qed

lemma filter_keeps_all: "(\<forall>x \<in> set xs. P x) \<Longrightarrow> filter P xs = xs"
  by (induction xs) auto

lemma unique_id_other_owner:
  assumes "r \<in> set xs" and "UMKM.id' r = Some ident" and "user_id r \<noteq> Some userId"
    and "distinct (map UMKM.id' xs)"
  shows "\<forall>u \<in> set xs. \<not> (UMKM.id' u = Some ident \<and> user_id u = Some userId)"
proof
  fix u
  assume u: "u \<in> set xs"
  show "\<not> (UMKM.id' u = Some ident \<and> user_id u = Some userId)"
  proof
    assume m: "UMKM.id' u = Some ident \<and> user_id u = Some userId"
    from assms(4) have "inj_on UMKM.id' (set xs)"
      by (simp add: distinct_map)
    moreover from m assms(2) have "UMKM.id' u = UMKM.id' r"
      by simp
    ultimately have "u = r"
      using u assms(1) by (rule inj_onD)
    with m assms(3) show False by simp
  qed
qed

lemma isValidUUID_budi: "isValidUUID (Some budi)"
  by (simp add: budi_def isValidUUID_def uuid_regex_def is_hex_def eval_nat_numeral)

lemma isValidUUID_siti: "isValidUUID (Some siti)"
  by (simp add: siti_def isValidUUID_def uuid_regex_def is_hex_def eval_nat_numeral)

lemma not_a_uuid: "\<not> isValidUUID (Some ''not-a-uuid'')"
  by (simp add: isValidUUID_def uuid_regex_def is_hex_def eval_nat_numeral)

lemma budi_neq_siti: "budi \<noteq> siti"
  by (simp add: budi_def siti_def)

lemma toko_bunga_stored_ids:
  "UMKM.id' toko_bunga_stored = Some ''1700000000000''"
  "user_id toko_bunga_stored = Some budi"
  by (simp_all add: toko_bunga_stored_def UMKM_payload.extend_def UMKM.fields_def)

lemma ts_order: "''2024-01-01T00:00:00.000Z'' < ''2024-06-01T00:00:00.000Z''"
  by code_simp

lemma generateUUID_zeros: "generateUUID zeros = ''00000000-0000-4000-8000-000000000000''"
  by (simp add: generateUUID_def zeros_def uuid_digit_def toString16_def)








section \<open>The claims about the record store\<close>

subsection \<open>C1: writes are scoped by identifier and owner\<close>

text \<open>
  C1, as the code has it. In the local-storage mode, \<^verbatim>\<open>update\<close> and \<^verbatim>\<open>delete\<close>
  raise \<open>NotFoundOrForbidden\<close> and leave the state as it is whenever no stored record
  has both the given identifier and the given owner; this is so in particular when
  the identifiers of the store are pairwise distinct and the record with the given
  identifier belongs to somebody else. With the remote backend, an owner identifier
  that is not a well-formed UUID makes both raise \<open>InvalidUserId\<close> before any query
  is sent; for a well-formed one they send a single query filtered by identifier and
  owner and raise the error that the backend reports for it, if it reports one; and
  neither operation ever changes the local state.
\<close>

theorem C1_scoped_write:
  "(\<not> hasSupabase e \<and>
      (\<forall>u \<in> set (ls_all e s). \<not> (UMKM.id' u = Some ident \<and> user_id u = Some userId))
      \<longrightarrow> update e be s ident payload userId now_iso = (Inl NotFoundOrForbidden, s)
        \<and> delete e be s ident userId = (Inl NotFoundOrForbidden, s))
   \<and> (\<not> hasSupabase e \<and> r \<in> set (ls_all e s) \<and> UMKM.id' r = Some ident
        \<and> user_id r \<noteq> Some userId \<and> distinct (map UMKM.id' (ls_all e s))
      \<longrightarrow> update e be s ident payload userId now_iso = (Inl NotFoundOrForbidden, s)
        \<and> delete e be s ident userId = (Inl NotFoundOrForbidden, s))
   \<and> (hasSupabase e \<and> \<not> isValidUUID (Some userId)
      \<longrightarrow> update e be s ident payload userId now_iso = (Inl InvalidUserId, s)
        \<and> delete e be s ident userId = (Inl InvalidUserId, s))
   \<and> (hasSupabase e \<and> isValidUUID (Some userId)
        \<and> reported (umkm_update_single be (payload\<lparr>Partial_UMKM.updated_at := Some now_iso\<rparr>)
             [Eq ''id'' ident, Eq ''user_id'' userId]) = Some er
      \<longrightarrow> update e be s ident payload userId now_iso = (Inl er, s))
   \<and> (hasSupabase e \<and> isValidUUID (Some userId)
        \<and> reported (umkm_delete be [Eq ''id'' ident, Eq ''user_id'' userId]) = Some er'
      \<longrightarrow> delete e be s ident userId = (Inl er', s))
   \<and> (hasSupabase e
      \<longrightarrow> snd (update e be s ident payload userId now_iso) = s
        \<and> snd (delete e be s ident userId) = s)"
proof -
  have local: "update e be s ident payload userId now_iso = (Inl NotFoundOrForbidden, s)
      \<and> delete e be s ident userId = (Inl NotFoundOrForbidden, s)"
    if mode: "\<not> hasSupabase e"
      and none: "\<forall>u \<in> set (ls_all e s). \<not> (UMKM.id' u = Some ident \<and> user_id u = Some userId)"
  proof
    from none have
      "findIndex (\<lambda>u. UMKM.id' u = Some ident \<and> user_id u = Some userId) (ls_all e s) = None"
      by (simp add: findIndex_None_iff)
    with mode show "update e be s ident payload userId now_iso = (Inl NotFoundOrForbidden, s)"
      by (simp add: update_def)
    from none have
      "filter (\<lambda>u. \<not> (UMKM.id' u = Some ident \<and> user_id u = Some userId)) (ls_all e s)
         = ls_all e s"
      by (intro filter_keeps_all) simp
    with mode show "delete e be s ident userId = (Inl NotFoundOrForbidden, s)"
      by (simp add: delete_def)
  qed
  have remote_invalid: "update e be s ident payload userId now_iso = (Inl InvalidUserId, s)
      \<and> delete e be s ident userId = (Inl InvalidUserId, s)"
    if "hasSupabase e" and "\<not> isValidUUID (Some userId)"
    using that by (simp add: update_def delete_def)
  have remote_update: "update e be s ident payload userId now_iso = (Inl er, s)"
    if "hasSupabase e" and "isValidUUID (Some userId)"
      and "reported (umkm_update_single be (payload\<lparr>Partial_UMKM.updated_at := Some now_iso\<rparr>)
             [Eq ''id'' ident, Eq ''user_id'' userId]) = Some er"
    using that
    by (auto simp: update_def reported_def split: response.splits option.splits)
  have remote_delete: "delete e be s ident userId = (Inl er', s)"
    if "hasSupabase e" and "isValidUUID (Some userId)"
      and "reported (umkm_delete be [Eq ''id'' ident, Eq ''user_id'' userId]) = Some er'"
    using that
    by (auto simp: delete_def reported_def split: response.splits option.splits)
  have remote_frame: "snd (update e be s ident payload userId now_iso) = s
      \<and> snd (delete e be s ident userId) = s"
    if "hasSupabase e"
    using that by (simp add: update_def delete_def split: response.splits option.splits)
  show ?thesis
    using local remote_invalid remote_update remote_delete remote_frame
      unique_id_other_owner [of r "ls_all e s" ident userId]
    by blast
qed

theorem C1_scoped_write_witness:
  "UMKM.id' toko_bunga_stored = Some ''1700000000000''
   \<and> user_id toko_bunga_stored = Some budi
   \<and> update local_env backend_empty one_record ''1700000000000'' set_inactive siti
         ''2024-06-01T00:00:00.000Z''
       = (Inl NotFoundOrForbidden, one_record)
   \<and> delete local_env backend_empty one_record ''1700000000000'' siti
       = (Inl NotFoundOrForbidden, one_record)
   \<and> update remote_env backend_one fresh remote_id set_inactive ''not-a-uuid''
         ''2024-06-01T00:00:00.000Z''
       = (Inl InvalidUserId, fresh)
   \<and> delete remote_env backend_one fresh remote_id ''not-a-uuid''
       = (Inl InvalidUserId, fresh)
   \<and> update remote_env backend_one fresh remote_id set_inactive siti
         ''2024-06-01T00:00:00.000Z''
       = (Inl no_rows, fresh)
   \<and> delete remote_env backend_down fresh remote_id siti = (Inl unreachable, fresh)"
proof -
  have store: "ls_all local_env one_record = [toko_bunga_stored]"
    by (simp add: local_env_def ls_all_def one_record_def)
  have loc: "\<not> hasSupabase local_env \<and> toko_bunga_stored \<in> set (ls_all local_env one_record)
      \<and> UMKM.id' toko_bunga_stored = Some ''1700000000000''
      \<and> user_id toko_bunga_stored \<noteq> Some siti
      \<and> distinct (map UMKM.id' (ls_all local_env one_record))"
    by (simp add: store toko_bunga_stored_ids budi_neq_siti) (simp add: local_env_def)
  have rem: "hasSupabase remote_env \<and> \<not> isValidUUID (Some ''not-a-uuid'')"
    by (simp add: remote_env_def not_a_uuid)
  have upd: "hasSupabase remote_env \<and> isValidUUID (Some siti)
      \<and> reported (umkm_update_single backend_one
           (set_inactive\<lparr>Partial_UMKM.updated_at := Some ''2024-06-01T00:00:00.000Z''\<rparr>)
           [Eq ''id'' remote_id, Eq ''user_id'' siti]) = Some no_rows"
    using budi_neq_siti
    by (simp add: remote_env_def isValidUUID_siti backend_one_def reported_def)
  have del: "hasSupabase remote_env \<and> isValidUUID (Some siti)
      \<and> reported (umkm_delete backend_down [Eq ''id'' remote_id, Eq ''user_id'' siti])
          = Some unreachable"
    by (simp add: remote_env_def isValidUUID_siti backend_down_def reported_def)
  note t1 = C1_scoped_write [where e = local_env and s = one_record
      and ident = "''1700000000000''" and userId = siti and be = backend_empty
      and payload = set_inactive and now_iso = "''2024-06-01T00:00:00.000Z''"
      and r = toko_bunga_stored]
  note t2 = C1_scoped_write [where e = remote_env and s = fresh and ident = remote_id
      and userId = "''not-a-uuid''" and be = backend_one and payload = set_inactive
      and now_iso = "''2024-06-01T00:00:00.000Z''"]
  note t3 = C1_scoped_write [where e = remote_env and s = fresh and ident = remote_id
      and userId = siti and be = backend_one and payload = set_inactive
      and now_iso = "''2024-06-01T00:00:00.000Z''" and er = no_rows]
  note t4 = C1_scoped_write [where e = remote_env and s = fresh and ident = remote_id
      and userId = siti and be = backend_down and er' = unreachable]
  note a = mp [OF conjunct1 [OF conjunct2 [OF t1]] loc]
  note b = mp [OF conjunct1 [OF conjunct2 [OF conjunct2 [OF t2]]] rem]
  note c = mp [OF conjunct1 [OF conjunct2 [OF conjunct2 [OF conjunct2 [OF t3]]]] upd]
  note d = mp [OF conjunct1 [OF conjunct2 [OF conjunct2 [OF conjunct2 [OF conjunct2 [OF t4]]]]] del]
  from toko_bunga_stored_ids a b c d show ?thesis
    by (intro conjI) (erule conjunct1 conjunct2 | assumption)+
qed

text \<open>
  C1 as stated fails with the remote backend. Let the backend hold a record of one
  owner. \<^verbatim>\<open>update\<close> of that record with the owner identifier \<^verbatim>\<open>"not-a-uuid"\<close>
  raises \<open>InvalidUserId\<close>; with the well-formed identifier of another owner it
  raises the error that the backend reports for finding no row; neither is
  \<open>NotFoundOrForbidden\<close>. And \<^verbatim>\<open>delete\<close> with the identifier of the other owner
  returns \<^verbatim>\<open>true\<close>, since the backend, having removed no row, reports no error.
\<close>

theorem C1_counterexample:
  "user_id remote_row = Some budi
   \<and> budi \<noteq> siti
   \<and> fst (update remote_env backend_one fresh remote_id set_inactive ''not-a-uuid''
            ''2024-06-01T00:00:00.000Z'') = Inl InvalidUserId
   \<and> InvalidUserId \<noteq> NotFoundOrForbidden
   \<and> fst (update remote_env backend_one fresh remote_id set_inactive siti
            ''2024-06-01T00:00:00.000Z'') = Inl no_rows
   \<and> no_rows \<noteq> NotFoundOrForbidden
   \<and> fst (delete remote_env backend_one fresh remote_id siti) = Inr True"
proof -
  have "user_id remote_row = Some budi"
    by (simp add: remote_row_def UMKM_payload.extend_def)
  moreover have "fst (update remote_env backend_one fresh remote_id set_inactive ''not-a-uuid''
            ''2024-06-01T00:00:00.000Z'') = Inl InvalidUserId"
    by (simp add: update_def remote_env_def not_a_uuid)
  moreover have "InvalidUserId \<noteq> NotFoundOrForbidden" "no_rows \<noteq> NotFoundOrForbidden"
    by (simp_all add: InvalidUserId_def NotFoundOrForbidden_def no_rows_def)
  moreover have "fst (update remote_env backend_one fresh remote_id set_inactive siti
            ''2024-06-01T00:00:00.000Z'') = Inl no_rows"
    using budi_neq_siti
    by (simp add: update_def remote_env_def isValidUUID_siti backend_one_def)
  moreover have "fst (delete remote_env backend_one fresh remote_id siti) = Inr True"
    by (simp add: delete_def remote_env_def isValidUUID_siti backend_one_def)
  ultimately show ?thesis
    using budi_neq_siti by (intro conjI)
qed

subsection \<open>C3: the owner of a created record\<close>




subsection \<open>C4: listing without a filter\<close>

text \<open>
  C4, as the code has it. Without a filter, \<^verbatim>\<open>getAll\<close> in the local-storage mode
  returns every stored record in the order of the stored list, and sorts nothing;
  a record that \<^verbatim>\<open>create\<close> adds comes first, before the earlier ones. With the remote
  backend it returns the rows of the unfiltered selection ordered by \<^verbatim>\<open>created_at\<close>
  descending, as the backend yields them, and the empty list when that selection
  reports an error.
\<close>

theorem C4_unfiltered:
  "(\<not> hasSupabase e \<and> window e \<longrightarrow> getAll e be s None None = Inr (ls_umkm s))
   \<and> (\<not> hasSupabase e \<and> window e \<longrightarrow>
        (\<exists>item. fst (create e be s payload userId rnd now_ms now_iso) = Inr (Some item)
           \<and> getAll e be (snd (create e be s payload userId rnd now_ms now_iso)) None None
               = Inr (item # ls_umkm s)))
   \<and> (hasSupabase e \<and> umkm_select_ordered be [] = Response (Some rows) None
        \<longrightarrow> getAll e be s None None = Inr rows)
   \<and> (hasSupabase e \<and> reported (umkm_select_ordered be []) \<noteq> None
        \<longrightarrow> getAll e be s None None = Inr [])"
proof (intro conjI impI)
  assume "\<not> hasSupabase e \<and> window e"
  then show "getAll e be s None None = Inr (ls_umkm s)"
    by (simp add: getAll_def ls_all_def truthy_def)
next
  assume "\<not> hasSupabase e \<and> window e"
  then show "\<exists>item. fst (create e be s payload userId rnd now_ms now_iso) = Inr (Some item)
           \<and> getAll e be (snd (create e be s payload userId rnd now_ms now_iso)) None None
               = Inr (item # ls_umkm s)"
    by (simp add: create_def getAll_def ls_all_def ls_save_def truthy_def Let_def)
next
  assume "hasSupabase e \<and> umkm_select_ordered be [] = Response (Some rows) None"
  then show "getAll e be s None None = Inr rows"
    by (simp add: getAll_def truthy_def await_rows_def)
next
  assume "hasSupabase e \<and> reported (umkm_select_ordered be []) \<noteq> None"
  then show "getAll e be s None None = Inr []"
    by (auto simp: getAll_def truthy_def await_rows_def reported_def split: response.splits option.splits)
qed

theorem C4_unfiltered_witness:
  "getAll local_env backend_empty oldest_first None None = Inr [older, newer]
   \<and> (\<exists>item. fst (create local_env backend_empty oldest_first toko_bunga siti zeros 5
                   ''2024-07-01T00:00:00.000Z'') = Inr (Some item)
         \<and> getAll local_env backend_empty
              (snd (create local_env backend_empty oldest_first toko_bunga siti zeros 5
                   ''2024-07-01T00:00:00.000Z'')) None None
             = Inr [item, older, newer])
   \<and> getAll remote_env backend_two fresh None None = Inr [newer, older]
   \<and> getAll remote_env backend_down fresh None None = Inr []"
proof -
  have loc: "\<not> hasSupabase local_env \<and> window local_env"
    by (simp add: local_env_def)
  have store: "ls_umkm oldest_first = [older, newer]"
    by (simp add: oldest_first_def)
  have two: "hasSupabase remote_env
      \<and> umkm_select_ordered backend_two [] = Response (Some [newer, older]) None"
    by (simp add: remote_env_def backend_two_def)
  have down: "hasSupabase remote_env \<and> reported (umkm_select_ordered backend_down []) \<noteq> None"
    by (simp add: remote_env_def backend_down_def reported_def)
  note t = C4_unfiltered [of local_env backend_empty oldest_first toko_bunga siti zeros 5
      "''2024-07-01T00:00:00.000Z''"]
  have a: "getAll local_env backend_empty oldest_first None None = Inr (ls_umkm oldest_first)"
    by (rule mp [OF conjunct1 [OF t] loc])
  have b: "\<exists>item. fst (create local_env backend_empty oldest_first toko_bunga siti zeros 5
                   ''2024-07-01T00:00:00.000Z'') = Inr (Some item)
         \<and> getAll local_env backend_empty
              (snd (create local_env backend_empty oldest_first toko_bunga siti zeros 5
                   ''2024-07-01T00:00:00.000Z'')) None None
             = Inr (item # ls_umkm oldest_first)"
    by (rule mp [OF conjunct1 [OF conjunct2 [OF t]] loc])
  have c: "getAll remote_env backend_two fresh None None = Inr [newer, older]"
    by (rule mp [OF conjunct1 [OF conjunct2 [OF conjunct2
          [OF C4_unfiltered [where e = remote_env and be = backend_two
            and rows = "[newer, older]" and s = fresh]]]] two])
  have d: "getAll remote_env backend_down fresh None None = Inr []"
    by (rule mp [OF conjunct2 [OF conjunct2 [OF conjunct2
          [OF C4_unfiltered [where e = remote_env and be = backend_down and s = fresh]]]] down])
  from a b c d show ?thesis
    by (simp only: store) 
qed

text \<open>
  C4 as stated fails in the local-storage mode: for a stored list whose first record
  has the earlier creation timestamp, \<^verbatim>\<open>getAll\<close> returns the earlier record first.
\<close>

theorem C4_counterexample:
  "getAll local_env backend_empty oldest_first None None = Inr [older, newer]
   \<and> UMKM.created_at older = Some ''2024-01-01T00:00:00.000Z''
   \<and> UMKM.created_at newer = Some ''2024-06-01T00:00:00.000Z''
   \<and> ''2024-01-01T00:00:00.000Z'' < ''2024-06-01T00:00:00.000Z''"
proof -
  have "getAll local_env backend_empty oldest_first None None = Inr [older, newer]"
    by (simp add: getAll_def local_env_def ls_all_def truthy_def oldest_first_def fresh_def)
  moreover have "UMKM.created_at older = Some ''2024-01-01T00:00:00.000Z''"
    by (simp add: older_def)
  moreover have "UMKM.created_at newer = Some ''2024-06-01T00:00:00.000Z''"
    by (simp add: newer_def)
  ultimately show ?thesis
    using ts_order by blast
qed

subsection \<open>C5: errors of the remote backend\<close>

text \<open>
  C5. With the remote backend \<^verbatim>\<open>getAll\<close> never raises. It returns the empty list
  when the query it sends reports an error, in its response or by throwing: the
  selection of the users of the jurisdiction; the selection of the records of those
  users, after the users were found; the selection of the records of one owner; the
  selection of all records. \<^verbatim>\<open>getById\<close> returns \<^verbatim>\<open>null\<close> when the selection it sends,
  with or without the owner, reports an error. \<^verbatim>\<open>create\<close>, \<^verbatim>\<open>update\<close> and
  \<^verbatim>\<open>delete\<close> raise the very error that the backend reports for their query, and
  leave the local state unchanged (\<^verbatim>\<open>update\<close> and \<^verbatim>\<open>delete\<close> send their query only
  for a well-formed owner identifier).
\<close>

theorem C5_remote_errors:
  "(hasSupabase e \<longrightarrow> (\<exists>rows. getAll e be s userId adminRW = Inr rows))
   \<and> (hasSupabase e \<and> truthy adminRW
        \<and> reported (users_select_id be [Eq ''rw'' (str adminRW)]) \<noteq> None
        \<longrightarrow> getAll e be s userId adminRW = Inr [])
   \<and> (hasSupabase e \<and> truthy adminRW
        \<and> users_select_id be [Eq ''rw'' (str adminRW)] = Response (Some userIds) None
        \<and> reported (umkm_select_ordered be [In ''user_id'' userIds]) \<noteq> None
        \<longrightarrow> getAll e be s userId adminRW = Inr [])
   \<and> (hasSupabase e \<and> \<not> truthy adminRW \<and> truthy userId
        \<and> reported (umkm_select_ordered be [Eq ''user_id'' (str userId)]) \<noteq> None
        \<longrightarrow> getAll e be s userId adminRW = Inr [])
   \<and> (hasSupabase e \<and> \<not> truthy adminRW \<and> \<not> truthy userId
        \<and> reported (umkm_select_ordered be []) \<noteq> None
        \<longrightarrow> getAll e be s userId adminRW = Inr [])
   \<and> (hasSupabase e \<and> truthy userId
        \<and> reported (umkm_select_single be [Eq ''id'' ident, Eq ''user_id'' (str userId)]) \<noteq> None
        \<longrightarrow> getById e be s ident userId = None)
   \<and> (hasSupabase e \<and> \<not> truthy userId
        \<and> reported (umkm_select_single be [Eq ''id'' ident]) \<noteq> None
        \<longrightarrow> getById e be s ident userId = None)
   \<and> (hasSupabase e
        \<and> reported (umkm_insert_single be
             (insert_row (payload\<lparr>user_id := Some (ensureValidUUID rnd (Some ownerId))\<rparr>) now_iso))
            = Some er
        \<longrightarrow> create e be s payload ownerId rnd now_ms now_iso = (Inl er, s))
   \<and> (hasSupabase e \<and> isValidUUID (Some ownerId)
        \<and> reported (umkm_update_single be (patch\<lparr>Partial_UMKM.updated_at := Some now_iso\<rparr>)
             [Eq ''id'' ident, Eq ''user_id'' ownerId]) = Some er
        \<longrightarrow> update e be s ident patch ownerId now_iso = (Inl er, s))
   \<and> (hasSupabase e \<and> isValidUUID (Some ownerId)
        \<and> reported (umkm_delete be [Eq ''id'' ident, Eq ''user_id'' ownerId]) = Some er
        \<longrightarrow> delete e be s ident ownerId = (Inl er, s))"
proof (intro conjI impI)
  assume "hasSupabase e"
  then show "\<exists>rows. getAll e be s userId adminRW = Inr rows"
    by (simp add: getAll_def split: response.splits option.splits)
next
  assume "hasSupabase e \<and> truthy adminRW
        \<and> reported (users_select_id be [Eq ''rw'' (str adminRW)]) \<noteq> None"
  then show "getAll e be s userId adminRW = Inr []"
    by (auto simp: getAll_def reported_def split: response.splits option.splits)
next
  assume a: "hasSupabase e \<and> truthy adminRW
        \<and> users_select_id be [Eq ''rw'' (str adminRW)] = Response (Some userIds) None
        \<and> reported (umkm_select_ordered be [In ''user_id'' userIds]) \<noteq> None"
  then have "await_rows be [In ''user_id'' userIds] = []"
    by (auto simp: await_rows_def reported_def split: response.splits option.splits)
  with a show "getAll e be s userId adminRW = Inr []"
    by (simp add: getAll_def)
next
  assume a: "hasSupabase e \<and> \<not> truthy adminRW \<and> truthy userId
        \<and> reported (umkm_select_ordered be [Eq ''user_id'' (str userId)]) \<noteq> None"
  then have "await_rows be [Eq ''user_id'' (str userId)] = []"
    by (auto simp: await_rows_def reported_def split: response.splits option.splits)
  with a show "getAll e be s userId adminRW = Inr []"
    by (simp add: getAll_def)
next
  assume a: "hasSupabase e \<and> \<not> truthy adminRW \<and> \<not> truthy userId
        \<and> reported (umkm_select_ordered be []) \<noteq> None"
  then have "await_rows be [] = []"
    by (auto simp: await_rows_def reported_def split: response.splits option.splits)
  with a show "getAll e be s userId adminRW = Inr []"
    by (simp add: getAll_def)
next
  assume a: "hasSupabase e \<and> truthy userId
        \<and> reported (umkm_select_single be [Eq ''id'' ident, Eq ''user_id'' (str userId)]) \<noteq> None"
  then have "await_single be [Eq ''id'' ident, Eq ''user_id'' (str userId)] = None"
    by (auto simp: await_single_def reported_def split: response.splits option.splits)
  with a show "getById e be s ident userId = None"
    by (simp add: getById_def)
next
  assume a: "hasSupabase e \<and> \<not> truthy userId
        \<and> reported (umkm_select_single be [Eq ''id'' ident]) \<noteq> None"
  then have "await_single be [Eq ''id'' ident] = None"
    by (auto simp: await_single_def reported_def split: response.splits option.splits)
  with a show "getById e be s ident userId = None"
    by (simp add: getById_def)
next
  assume "hasSupabase e
        \<and> reported (umkm_insert_single be
             (insert_row (payload\<lparr>user_id := Some (ensureValidUUID rnd (Some ownerId))\<rparr>) now_iso))
            = Some er"
  then show "create e be s payload ownerId rnd now_ms now_iso = (Inl er, s)"
    by (auto simp: create_def Let_def reported_def split: response.splits option.splits)
next
  assume "hasSupabase e \<and> isValidUUID (Some ownerId)
        \<and> reported (umkm_update_single be (patch\<lparr>Partial_UMKM.updated_at := Some now_iso\<rparr>)
             [Eq ''id'' ident, Eq ''user_id'' ownerId]) = Some er"
  then show "update e be s ident patch ownerId now_iso = (Inl er, s)"
    by (auto simp: update_def reported_def split: response.splits option.splits)
next
  assume "hasSupabase e \<and> isValidUUID (Some ownerId)
        \<and> reported (umkm_delete be [Eq ''id'' ident, Eq ''user_id'' ownerId]) = Some er"
  then show "delete e be s ident ownerId = (Inl er, s)"
    by (auto simp: delete_def reported_def split: response.splits option.splits)
qed

theorem C5_remote_errors_witness:
  "getAll remote_env backend_down one_record (Some budi) None = Inr []
   \<and> getAll remote_env backend_down one_record None (Some ''01'') = Inr []
   \<and> users_select_id backend_users_only [Eq ''rw'' ''01''] = Response (Some [budi]) None
   \<and> getAll remote_env backend_users_only one_record None (Some ''01'') = Inr []
   \<and> getAll remote_env backend_down one_record None None = Inr []
   \<and> getById remote_env backend_down one_record remote_id (Some budi) = None
   \<and> getById remote_env backend_down one_record remote_id None = None
   \<and> create remote_env backend_down one_record toko_bunga budi zeros 5
         ''2024-07-01T00:00:00.000Z'' = (Inl unreachable, one_record)
   \<and> update remote_env backend_down one_record remote_id set_inactive budi
         ''2024-07-01T00:00:00.000Z'' = (Inl unreachable, one_record)
   \<and> delete remote_env backend_down one_record remote_id budi
       = (Inl unreachable, one_record)"
proof -
  have h_user: "hasSupabase remote_env \<and> \<not> truthy None \<and> truthy (Some budi)
      \<and> reported (umkm_select_ordered backend_down [Eq ''user_id'' (str (Some budi))]) \<noteq> None"
    by (simp add: remote_env_def backend_down_def reported_def truthy_def budi_def)
  have h_users: "hasSupabase remote_env \<and> truthy (Some ''01'')
      \<and> reported (users_select_id backend_down [Eq ''rw'' (str (Some ''01''))]) \<noteq> None"
    by (simp add: remote_env_def backend_down_def reported_def truthy_def)
  have users_ok: "users_select_id backend_users_only [Eq ''rw'' ''01''] = Response (Some [budi]) None"
    by (simp add: backend_users_only_def)
  have h_rows: "hasSupabase remote_env \<and> truthy (Some ''01'')
      \<and> users_select_id backend_users_only [Eq ''rw'' (str (Some ''01''))]
          = Response (Some [budi]) None
      \<and> reported (umkm_select_ordered backend_users_only [In ''user_id'' [budi]]) \<noteq> None"
    by (simp add: remote_env_def backend_users_only_def backend_down_def reported_def
        truthy_def str_def)
  have h_all: "hasSupabase remote_env \<and> \<not> truthy None \<and> \<not> truthy None
      \<and> reported (umkm_select_ordered backend_down []) \<noteq> None"
    by (simp add: remote_env_def backend_down_def reported_def truthy_def)
  have h_one: "hasSupabase remote_env \<and> truthy (Some budi)
      \<and> reported (umkm_select_single backend_down
           [Eq ''id'' remote_id, Eq ''user_id'' (str (Some budi))]) \<noteq> None"
    by (simp add: remote_env_def backend_down_def reported_def truthy_def budi_def)
  have h_any: "hasSupabase remote_env \<and> \<not> truthy None
      \<and> reported (umkm_select_single backend_down [Eq ''id'' remote_id]) \<noteq> None"
    by (simp add: remote_env_def backend_down_def reported_def truthy_def)
  have ins: "hasSupabase remote_env
      \<and> reported (umkm_insert_single backend_down
           (insert_row (toko_bunga\<lparr>user_id := Some (ensureValidUUID zeros (Some budi))\<rparr>)
              ''2024-07-01T00:00:00.000Z'')) = Some unreachable"
    by (simp add: remote_env_def backend_down_def reported_def)
  have upd: "hasSupabase remote_env \<and> isValidUUID (Some budi)
      \<and> reported (umkm_update_single backend_down
           (set_inactive\<lparr>Partial_UMKM.updated_at := Some ''2024-07-01T00:00:00.000Z''\<rparr>)
           [Eq ''id'' remote_id, Eq ''user_id'' budi]) = Some unreachable"
    by (simp add: remote_env_def backend_down_def reported_def isValidUUID_budi)
  have del: "hasSupabase remote_env \<and> isValidUUID (Some budi)
      \<and> reported (umkm_delete backend_down [Eq ''id'' remote_id, Eq ''user_id'' budi])
          = Some unreachable"
    by (simp add: remote_env_def backend_down_def reported_def isValidUUID_budi)
  note t = C5_remote_errors [where e = remote_env and be = backend_down and s = one_record
      and ident = remote_id and ownerId = budi and payload = toko_bunga
      and rnd = zeros and now_ms = 5 and now_iso = "''2024-07-01T00:00:00.000Z''"
      and patch = set_inactive and er = unreachable]
  note tu = t [where userId = "Some budi" and adminRW = None]
  note ta = t [where userId = None and adminRW = "Some ''01''"]
  note tn = t [where userId = None and adminRW = None]
  note tr = C5_remote_errors [where e = remote_env and be = backend_users_only
      and s = one_record and userId = None and adminRW = "Some ''01''" and userIds = "[budi]"]
  have a: "getAll remote_env backend_down one_record (Some budi) None = Inr []"
    by (rule mp [OF conjunct1 [OF conjunct2 [OF conjunct2 [OF conjunct2 [OF tu]]]] h_user])
  have b: "getAll remote_env backend_down one_record None (Some ''01'') = Inr []"
    by (rule mp [OF conjunct1 [OF conjunct2 [OF ta]] h_users])
  have c: "getAll remote_env backend_users_only one_record None (Some ''01'') = Inr []"
    by (rule mp [OF conjunct1 [OF conjunct2 [OF conjunct2 [OF tr]]] h_rows])
  have d: "getAll remote_env backend_down one_record None None = Inr []"
    by (rule mp [OF conjunct1 [OF conjunct2 [OF conjunct2 [OF conjunct2 [OF conjunct2 [OF tn]]]]]
          h_all])
  have e: "getById remote_env backend_down one_record remote_id (Some budi) = None"
    by (rule mp [OF conjunct1 [OF conjunct2 [OF conjunct2 [OF conjunct2 [OF conjunct2
          [OF conjunct2 [OF tu]]]]]] h_one])
  have f: "getById remote_env backend_down one_record remote_id None = None"
    by (rule mp [OF conjunct1 [OF conjunct2 [OF conjunct2 [OF conjunct2 [OF conjunct2
          [OF conjunct2 [OF conjunct2 [OF tn]]]]]]] h_any])
  have g: "create remote_env backend_down one_record toko_bunga budi zeros 5
         ''2024-07-01T00:00:00.000Z'' = (Inl unreachable, one_record)"
    by (rule mp [OF conjunct1 [OF conjunct2 [OF conjunct2 [OF conjunct2 [OF conjunct2
          [OF conjunct2 [OF conjunct2 [OF conjunct2 [OF tn]]]]]]]] ins])
  have h: "update remote_env backend_down one_record remote_id set_inactive budi
         ''2024-07-01T00:00:00.000Z'' = (Inl unreachable, one_record)"
    by (rule mp [OF conjunct1 [OF conjunct2 [OF conjunct2 [OF conjunct2 [OF conjunct2
          [OF conjunct2 [OF conjunct2 [OF conjunct2 [OF conjunct2 [OF tn]]]]]]]]] upd])
  have i: "delete remote_env backend_down one_record remote_id budi
       = (Inl unreachable, one_record)"
    by (rule mp [OF conjunct2 [OF conjunct2 [OF conjunct2 [OF conjunct2 [OF conjunct2
          [OF conjunct2 [OF conjunct2 [OF conjunct2 [OF conjunct2 [OF tn]]]]]]]]] del])
  from a b users_ok c d e f g h i show ?thesis
    by (intro conjI)
qed

subsection \<open>C8: the modification timestamp\<close>

text \<open>
  C8 asks that a successful \<^verbatim>\<open>update\<close> sets \<^verbatim>\<open>updated_at\<close> to the time of the
  call in both modes. With the remote backend the patch that is sent carries
  \<^verbatim>\<open>updated_at\<close> with the time of the call. In the local-storage mode the stored
  record only takes the keys of the payload: when the payload has no
  \<^verbatim>\<open>updated_at\<close>, the updated record keeps the value it had, whatever the time of
  the call.
\<close>

theorem C8_local_update_timestamp:
  "(\<not> hasSupabase e
      \<and> findIndex (\<lambda>u. UMKM.id' u = Some ident \<and> user_id u = Some userId) (ls_all e s) = Some i
      \<and> Partial_UMKM.updated_at payload = None
     \<longrightarrow> (\<exists>item. fst (update e be s ident payload userId now_iso) = Inr (Some item)
            \<and> updated_at item = updated_at (ls_all e s ! i)))
   \<and> (hasSupabase e \<and> isValidUUID (Some userId)
        \<and> umkm_update_single be (payload\<lparr>Partial_UMKM.updated_at := Some now_iso\<rparr>)
             [Eq ''id'' ident, Eq ''user_id'' userId]
            = Response (Some row) None
     \<longrightarrow> fst (update e be s ident payload userId now_iso) = Inr (Some row))"
proof (intro conjI impI)
  assume a: "\<not> hasSupabase e
      \<and> findIndex (\<lambda>u. UMKM.id' u = Some ident \<and> user_id u = Some userId) (ls_all e s) = Some i
      \<and> Partial_UMKM.updated_at payload = None"
  then have "i < length (ls_all e s)"
    using findIndex_Some [of "\<lambda>u. UMKM.id' u = Some ident \<and> user_id u = Some userId" "ls_all e s" i]
    by simp
  with a show "\<exists>item. fst (update e be s ident payload userId now_iso) = Inr (Some item)
            \<and> updated_at item = updated_at (ls_all e s ! i)"
    by (simp add: update_def Let_def spread_def ovr_opt_def)
next
  assume "hasSupabase e \<and> isValidUUID (Some userId)
        \<and> umkm_update_single be (payload\<lparr>Partial_UMKM.updated_at := Some now_iso\<rparr>)
             [Eq ''id'' ident, Eq ''user_id'' userId]
            = Response (Some row) None"
  then show "fst (update e be s ident payload userId now_iso) = Inr (Some row)"
    by (simp add: update_def)
qed

theorem C8_local_update_timestamp_witness:
  "(\<exists>item. fst (update local_env backend_empty one_record ''1700000000000'' set_inactive budi
                  ''2024-07-01T00:00:00.000Z'') = Inr (Some item)
       \<and> status item = ''inactive''
       \<and> updated_at item = None)
   \<and> updated_at toko_bunga_stored = None"
proof -
  have store: "ls_all local_env one_record = [toko_bunga_stored]"
    by (simp add: local_env_def ls_all_def one_record_def)
  have old: "updated_at toko_bunga_stored = None"
    by (simp add: toko_bunga_stored_def UMKM.fields_def UMKM_payload.extend_def)
  have hyp: "\<not> hasSupabase local_env
      \<and> findIndex (\<lambda>u. UMKM.id' u = Some ''1700000000000'' \<and> user_id u = Some budi)
           (ls_all local_env one_record) = Some 0
      \<and> Partial_UMKM.updated_at set_inactive = None"
    by (simp add: store toko_bunga_stored_ids)
       (simp add: local_env_def set_inactive_def no_change_def)
  have "\<exists>item. fst (update local_env backend_empty one_record ''1700000000000'' set_inactive budi
                  ''2024-07-01T00:00:00.000Z'') = Inr (Some item)
       \<and> updated_at item = updated_at (ls_all local_env one_record ! 0)"
    by (rule mp [OF conjunct1 [OF C8_local_update_timestamp [where e = local_env
          and s = one_record and ident = "''1700000000000''" and userId = budi and i = 0
          and payload = set_inactive and be = backend_empty
          and now_iso = "''2024-07-01T00:00:00.000Z''"]] hyp])
  then obtain item where item:
    "fst (update local_env backend_empty one_record ''1700000000000'' set_inactive budi
            ''2024-07-01T00:00:00.000Z'') = Inr (Some item)"
    "updated_at item = updated_at (ls_all local_env one_record ! 0)"
    by blast
  have res: "fst (update local_env backend_empty one_record ''1700000000000'' set_inactive budi
            ''2024-07-01T00:00:00.000Z'') = Inr (Some (spread toko_bunga_stored set_inactive))"
    by (simp add: update_def local_env_def store [unfolded local_env_def] toko_bunga_stored_ids Let_def)
  have "status (spread toko_bunga_stored set_inactive) = ''inactive''"
    by (simp add: spread_def set_inactive_def no_change_def ovr_def)
  with item res old store show ?thesis
    by auto
qed

section \<open>Helper lemmas about sessions\<close>

lemma selected_admin_cases:
  "selected_admin rwChoice = Some a \<Longrightarrow>
     (rwChoice = Some ''1'' \<and> a = admin_rw01) \<or> (rwChoice = Some ''2'' \<and> a = admin_rw04)"
  by (auto simp: selected_admin_def ADMIN_USERS_def admin_rw01_def admin_rw04_def
      split: if_splits)

lemma login_default_admin_rw01:
  "login_default_admin s ''01'' uname pw rnd =
     (if truthy (ls_admin_passwords s (id' admin_rw01)) then (False, s)
      else (True, set_session admin_rw01 s))"
  by (simp add: login_default_admin_def ADMIN_USERS_def admin_rw01_def)

lemma login_default_admin_rw04:
  "login_default_admin s ''04'' uname pw rnd =
     (if truthy (ls_admin_passwords s (id' admin_rw04)) then (False, s)
      else (True, set_session admin_rw04 s))"
  by (simp add: login_default_admin_def ADMIN_USERS_def admin_rw01_def admin_rw04_def)

lemma login_admin_default:
  assumes "selected_admin rwChoice = Some a"
  shows "login s ''admin'' ''admin'' rwChoice rnd =
     (if truthy (ls_admin_passwords s (id' a)) then (False, s) else (True, set_session a s))"
  using selected_admin_cases [OF assms]
  by (auto simp: login_def DEFAULT_ADMIN_PASSWORD_def login_default_admin_rw01
      login_default_admin_rw04)

lemma changePassword_admin_success:
  assumes "current_user s = Some u" and "role u = Admin"
    and "success (fst (changePassword s oldPassword newPassword now_iso))"
  shows "ls_admin_passwords (snd (changePassword s oldPassword newPassword now_iso)) (id' u)
           = Some newPassword \<and> 6 \<le> length newPassword"
  using assms
  by (auto simp: changePassword_def Let_def set_session_def split: if_splits)

lemma selected_1: "selected_admin (Some ''1'') = Some admin_rw01"
  by (simp add: selected_admin_def ADMIN_USERS_def admin_rw01_def)

lemma findIndex_append_last:
  "(\<forall>x \<in> set xs. \<not> P x) \<Longrightarrow> P y \<Longrightarrow> findIndex P (xs @ [y]) = Some (length xs)"
  by (induction xs) auto

lemma register_fresh_name:
  assumes "RegisterData.username d \<noteq> ''admin''"
    and "\<forall>u \<in> set (ls_registered_users s). username u \<noteq> RegisterData.username d"
  shows "register s d rnd now_iso =
     (\<lparr>success = True, message = ''Registrasi berhasil! Silakan login.''\<rparr>,
      s\<lparr>ls_registered_users := ls_registered_users s @
          [\<lparr> id' = generateUUID rnd, username = RegisterData.username d,
             name = RegisterData.name d, role = User, rw = Some (RegisterData.rw d),
             created_at = Some now_iso, must_change_password = None,
             last_password_change = None, password = RegisterData.password d \<rparr>]\<rparr>)"
proof -
  from assms(2) have "find (\<lambda>u. username u = RegisterData.username d) (ls_registered_users s) = None"
    by (simp add: find_None_iff)
  with assms(1) show ?thesis
    by (simp add: register_def Let_def)
qed

lemma register_taken_name:
  assumes "\<exists>u \<in> set (ls_registered_users s). username u = RegisterData.username d"
  shows "\<not> success (fst (register s d rnd now_iso)) \<and> snd (register s d rnd now_iso) = s"
proof -
  from assms have "find (\<lambda>u. username u = RegisterData.username d) (ls_registered_users s) \<noteq> None"
    by (auto simp: find_None_iff)
  then show ?thesis
    by (auto simp: register_def Let_def)
qed

lemma login_registered_last:
  assumes "\<forall>u \<in> set users. username u \<noteq> username nu"
    and "ls_registered_users s = users @ [nu]"
    and "id' nu \<noteq> []" and "uuid_regex (id' nu)"
  shows "login_registered s (username nu) (password nu) rnd
           = (True, set_session (user.truncate nu) s)"
proof -
  from assms(1) have "findIndex (\<lambda>u. username u = username nu \<and> password u = password nu)
      (users @ [nu]) = Some (length users)"
    by (intro findIndex_append_last) auto
  with assms(2-4) show ?thesis
    by (simp add: login_registered_def Let_def)
qed

lemma changePassword_cases:
  assumes "current_user s = Some u" and "role u \<noteq> Admin"
  shows "snd (changePassword s oldPassword newPassword now_iso) = s
    \<or> (\<exists>i. findIndex (\<lambda>x. id' x = id' u) (ls_registered_users s) = Some i
          \<and> snd (changePassword s oldPassword newPassword now_iso)
              = s\<lparr>ls_registered_users := (ls_registered_users s)
                    [i := (ls_registered_users s ! i)
                       \<lparr>password := newPassword, last_password_change := Some now_iso\<rparr>]\<rparr>)"
  using assms by (auto simp: changePassword_def Let_def split: option.splits)

lemma same_entry: "(r :: registered_user) = r\<lparr>password := password r,
    last_password_change := last_password_change r\<rparr>"
  by simp

lemma registry_ok_append:
  "registry_ok users \<Longrightarrow> role nu = User \<Longrightarrow> username nu \<noteq> ''admin''
     \<Longrightarrow> registry_ok (users @ [nu])"
  by (simp add: registry_ok_def)

lemma registry_ok_update:
  assumes "registry_ok users" and "role v = User" and "username v \<noteq> ''admin''"
  shows "registry_ok (users[i := v])"
proof -
  have "set (users[i := v]) \<subseteq> insert v (set users)"
    by (rule set_update_subset_insert)
  with assms show ?thesis
    by (auto simp: registry_ok_def)
qed

lemma registry_ok_nth:
  "registry_ok users \<Longrightarrow> i < length users
     \<Longrightarrow> role (users ! i) = User \<and> username (users ! i) \<noteq> ''admin''"
  by (simp add: registry_ok_def)

lemma is_predefined_bookkeeping:
  "is_predefined u \<Longrightarrow> is_predefined (u\<lparr>must_change_password := m, last_password_change := l\<rparr>)"
  by (simp add: is_predefined_def)

lemma is_predefined_must_change:
  "is_predefined u \<Longrightarrow> is_predefined (u\<lparr>must_change_password := m\<rparr>)"
  by (simp add: is_predefined_def)

lemma admins_predefined: "a \<in> set ADMIN_USERS \<Longrightarrow> is_predefined a"
  unfolding is_predefined_def by (rule bexI [of _ a]) simp_all

lemma is_predefined_id:
  "is_predefined u \<Longrightarrow>
     id' u \<in> {''550e8400-e29b-41d4-a716-446655440001'', ''550e8400-e29b-41d4-a716-446655440004''}"
proof -
  assume "is_predefined u"
  then obtain a where a: "a \<in> set ADMIN_USERS"
    "u\<lparr>must_change_password := must_change_password a,
       last_password_change := last_password_change a\<rparr> = a"
    by (auto simp: is_predefined_def)
  from a(2) have "id' u = id' a"
    by (metis user.select_convs(1) user.surjective user.update_convs(7) user.update_convs(8))
  with a(1) show ?thesis
    by (auto simp: ADMIN_USERS_def admin_rw01_def admin_rw04_def)
qed

lemma custom_admin_sound:
  "custom_admin adminPasswords pw admins = Some a
     \<Longrightarrow> \<exists>b \<in> set admins. a = b\<lparr>must_change_password := Some False\<rparr>"
  by (induction admins) (auto simp: Let_def split: if_splits)

lemma find_Some_mem: "find P xs = Some x \<Longrightarrow> x \<in> set xs"
  by (auto simp: find_Some_iff)

lemma logout_inv: "session_inv s \<Longrightarrow> session_inv (logout s)"
  by (simp add: session_inv_def logout_def admin_is_predefined_def)

lemma register_result:
  "snd (register s d rnd now_iso) = s
   \<or> (\<exists>nu. role nu = User \<and> username nu = RegisterData.username d
         \<and> RegisterData.username d \<noteq> ''admin''
         \<and> success (fst (register s d rnd now_iso))
         \<and> snd (register s d rnd now_iso)
             = s\<lparr>ls_registered_users := ls_registered_users s @ [nu]\<rparr>)"
proof (cases "RegisterData.username d \<noteq> ''admin''
    \<and> (\<forall>u \<in> set (ls_registered_users s). username u \<noteq> RegisterData.username d)")
  case True
  let ?nu = "\<lparr> id' = generateUUID rnd, username = RegisterData.username d,
             name = RegisterData.name d, role = User, rw = Some (RegisterData.rw d),
             created_at = Some now_iso, must_change_password = None,
             last_password_change = None, password = RegisterData.password d \<rparr>"
  from True have "register s d rnd now_iso =
     (\<lparr>success = True, message = ''Registrasi berhasil! Silakan login.''\<rparr>,
      s\<lparr>ls_registered_users := ls_registered_users s @ [?nu]\<rparr>)"
    by (intro register_fresh_name) simp_all
  with True have "role ?nu = User \<and> username ?nu = RegisterData.username d
         \<and> RegisterData.username d \<noteq> ''admin''
         \<and> success (fst (register s d rnd now_iso))
         \<and> snd (register s d rnd now_iso)
             = s\<lparr>ls_registered_users := ls_registered_users s @ [?nu]\<rparr>"
    by simp
  then show ?thesis by blast
next
  case False
  then have "RegisterData.username d = ''admin''
    \<or> (\<exists>u \<in> set (ls_registered_users s). username u = RegisterData.username d)"
    by blast
  then have "snd (register s d rnd now_iso) = s"
  proof
    assume "RegisterData.username d = ''admin''"
    then show ?thesis by (simp add: register_def)
  next
    assume "\<exists>u \<in> set (ls_registered_users s). username u = RegisterData.username d"
    then show ?thesis by (simp add: register_taken_name)
  qed
  then show ?thesis by simp
qed

lemma register_failed:
  "\<not> success (fst (register s d rnd now_iso)) \<Longrightarrow> snd (register s d rnd now_iso) = s"
  by (auto simp: register_def Let_def split: option.splits if_splits)

lemma register_inv:
  assumes "session_inv s"
  shows "session_inv (snd (register s d rnd now_iso))"
  using register_result [of s d rnd now_iso] assms
  by (auto simp: session_inv_def registry_ok_append)

lemma changePassword_inv:
  assumes "session_inv s"
  shows "session_inv (snd (changePassword s oldPassword newPassword now_iso))"
proof (cases "current_user s")
  case None
  with assms show ?thesis
    by (simp add: changePassword_def)
next
  case (Some u)
  show ?thesis
  proof (cases "role u = Admin")
    case True
    with Some assms have "is_predefined u"
      by (simp add: session_inv_def admin_is_predefined_def)
    then have "is_predefined (u\<lparr>must_change_password := Some False,
        last_password_change := Some now_iso\<rparr>)"
      by (rule is_predefined_bookkeeping)
    with Some True assms show ?thesis
      by (simp add: changePassword_def Let_def session_inv_def set_session_def
          admin_is_predefined_def)
  next
    case False
    let ?us = "ls_registered_users s"
    from changePassword_cases [OF Some False, of oldPassword newPassword now_iso]
    show ?thesis
    proof
      assume "snd (changePassword s oldPassword newPassword now_iso) = s"
      with assms show ?thesis by simp
    next
      assume "\<exists>i. findIndex (\<lambda>x. id' x = id' u) ?us = Some i
          \<and> snd (changePassword s oldPassword newPassword now_iso)
              = s\<lparr>ls_registered_users := ?us
                    [i := (?us ! i)\<lparr>password := newPassword, last_password_change := Some now_iso\<rparr>]\<rparr>"
      then obtain i where i: "findIndex (\<lambda>x. id' x = id' u) ?us = Some i"
        and s': "snd (changePassword s oldPassword newPassword now_iso)
              = s\<lparr>ls_registered_users := ?us
                    [i := (?us ! i)\<lparr>password := newPassword, last_password_change := Some now_iso\<rparr>]\<rparr>"
        by blast
      from findIndex_Some [OF i] have "i < length ?us" by simp
      with assms have "role (?us ! i) = User \<and> username (?us ! i) \<noteq> ''admin''"
        by (intro registry_ok_nth) (simp_all add: session_inv_def)
      then have "registry_ok (?us[i := (?us ! i)\<lparr>password := newPassword,
          last_password_change := Some now_iso\<rparr>])"
        using assms by (intro registry_ok_update) (simp_all add: session_inv_def)
      with assms show ?thesis
        by (simp add: s' session_inv_def)
    qed
  qed
qed

lemma login_registered_result:
  assumes "registry_ok (ls_registered_users s)"
  shows "snd (login_registered s uname pw rnd) = s \<and> \<not> fst (login_registered s uname pw rnd)
    \<or> (\<exists>u users. role u = User
          \<and> fst (login_registered s uname pw rnd)
          \<and> registry_ok users
          \<and> snd (login_registered s uname pw rnd)
              = set_session u (s\<lparr>ls_registered_users := users\<rparr>))"
proof (cases "findIndex (\<lambda>u. username u = uname \<and> password u = pw) (ls_registered_users s)")
  case None
  then show ?thesis
    by (simp add: login_registered_def)
next
  case (Some j)
  let ?us = "ls_registered_users s"
  let ?f = "?us ! j"
  let ?f' = "?f\<lparr>id' := generateUUID rnd\<rparr>"
  from findIndex_Some [OF Some] have "j < length ?us" by simp
  with assms have f: "role ?f = User \<and> username ?f \<noteq> ''admin''"
    by (intro registry_ok_nth)
  then have f': "role ?f' = User" "username ?f' \<noteq> ''admin''"
    by simp_all
  have same: "s\<lparr>ls_registered_users := ?us\<rparr> = s" by simp
  show ?thesis
  proof (cases "id' ?f = [] \<or> \<not> uuid_regex (id' ?f)")
    case False
    with Some have "login_registered s uname pw rnd = (True, set_session (user.truncate ?f) s)"
      by (simp add: login_registered_def Let_def)
    moreover have "role (user.truncate ?f) = User"
      using f by (simp add: user.truncate_def)
    ultimately show ?thesis
      using assms same by (metis fst_conv snd_conv)
  next
    case True
    show ?thesis
    proof (cases "findIndex (\<lambda>u. username u = uname) ?us")
      case None
      with Some True have "login_registered s uname pw rnd
          = (True, set_session (user.truncate ?f') s)"
        by (simp add: login_registered_def Let_def)
      moreover have "role (user.truncate ?f') = User"
        using f by (simp add: user.truncate_def)
      ultimately show ?thesis
        using assms same by (metis fst_conv snd_conv)
    next
      case (Some i)
      with \<open>findIndex (\<lambda>u. username u = uname \<and> password u = pw) ?us = Some j\<close> True
      have "login_registered s uname pw rnd
          = (True, set_session (user.truncate ?f')
               (s\<lparr>ls_registered_users := (?us[j := ?f'])[i := ?f']\<rparr>))"
        by (simp add: login_registered_def Let_def)
      moreover have "role (user.truncate ?f') = User"
        using f by (simp add: user.truncate_def)
      moreover have "registry_ok ((?us[j := ?f'])[i := ?f'])"
        using assms f' by (intro registry_ok_update)
      ultimately show ?thesis
        by (metis fst_conv snd_conv)
    qed
  qed
qed

lemma login_registered_inv:
  assumes "session_inv s"
  shows "session_inv (snd (login_registered s uname pw rnd))"
proof -
  from assms have "registry_ok (ls_registered_users s)"
    by (simp add: session_inv_def)
  from login_registered_result [OF this, of uname pw rnd] assms show ?thesis
    by (auto simp: session_inv_def set_session_def admin_is_predefined_def)
qed

lemma set_session_admin_inv:
  "session_inv s \<Longrightarrow> is_predefined a \<Longrightarrow> session_inv (set_session a s)"
  by (simp add: session_inv_def set_session_def admin_is_predefined_def)

lemma login_default_admin_inv:
  assumes "session_inv s"
  shows "session_inv (snd (login_default_admin s selectedRW uname pw rnd))"
proof (cases "find (\<lambda>admin. rw admin = Some selectedRW) ADMIN_USERS")
  case None
  with login_registered_inv [OF assms] show ?thesis
    by (simp add: login_default_admin_def)
next
  case (Some a)
  then have "is_predefined a"
    by (intro admins_predefined find_Some_mem)
  with Some assms show ?thesis
    by (simp add: login_default_admin_def Let_def set_session_admin_inv)
qed

lemma login_inv:
  assumes "session_inv s"
  shows "session_inv (snd (login s uname pw rwChoice rnd))"
proof (cases "custom_admin (ls_admin_passwords s) pw ADMIN_USERS")
  case None
  with assms show ?thesis
    by (simp add: login_def login_registered_inv login_default_admin_inv)
next
  case (Some a)
  from custom_admin_sound [OF Some] obtain b where "b \<in> set ADMIN_USERS"
    and "a = b\<lparr>must_change_password := Some False\<rparr>"
    by blast
  then have "is_predefined a"
    by (simp add: admins_predefined is_predefined_must_change)
  with Some assms show ?thesis
    by (simp add: login_def login_registered_inv login_default_admin_inv set_session_admin_inv)
qed

lemma step_inv: "session_inv s \<Longrightarrow> session_inv (step s c)"
  by (cases c) (simp_all add: register_inv login_inv logout_inv changePassword_inv)

lemma run_inv: "session_inv s \<Longrightarrow> session_inv (run s calls)"
  unfolding run_def by (induction calls arbitrary: s) (simp_all add: step_inv)

lemma initial_inv:
  "ls_registered_users s = [] \<Longrightarrow> current_user s = None \<Longrightarrow> ls_auth_user s = None
     \<Longrightarrow> session_inv s"
  by (simp add: session_inv_def registry_ok_def admin_is_predefined_def)

lemma budi_session_reached:
  "snd (login (snd (register fresh budi_data zeros ''2024-07-01T00:00:00.000Z''))
          ''budi'' ''rahasia'' None zeros) = budi_session"
proof -
  let ?nu = "\<lparr> id' = generateUUID zeros, username = RegisterData.username budi_data,
             name = RegisterData.name budi_data, role = User,
             rw = Some (RegisterData.rw budi_data),
             created_at = Some ''2024-07-01T00:00:00.000Z'', must_change_password = None,
             last_password_change = None, password = RegisterData.password budi_data \<rparr>"
  let ?s1 = "fresh\<lparr>ls_registered_users := ls_registered_users fresh @ [?nu]\<rparr>"
  have reg: "snd (register fresh budi_data zeros ''2024-07-01T00:00:00.000Z'') = ?s1"
    by (subst register_fresh_name) (simp_all add: budi_data_def fresh_def)
  have "login_registered ?s1 (username ?nu) (password ?nu) zeros
      = (True, set_session (user.truncate ?nu) ?s1)"
    by (rule login_registered_last [where users = "[]"])
       (simp_all add: fresh_def generateUUID_zeros uuid_regex_def is_hex_def eval_nat_numeral)
  then have "login ?s1 ''budi'' ''rahasia'' None zeros = (True, set_session (user.truncate ?nu) ?s1)"
    by (simp add: login_def budi_data_def)
  moreover have "set_session (user.truncate ?nu) ?s1 = budi_session"
    by (simp add: set_session_def user.truncate_def budi_session_def budi_user_def fresh_def
        budi_data_def generateUUID_zeros user.extend_def registered_user.fields_def)
  ultimately show ?thesis
    by (simp add: reg)
qed

lemma admin_session_reached:
  "snd (login fresh ''admin'' ''admin'' (Some ''1'') zeros) = admin_session"
  by (simp add: login_def DEFAULT_ADMIN_PASSWORD_def login_default_admin_rw01 fresh_def
      truthy_def admin_session_def)

lemma demo_run: "run fresh demo_calls = set_session admin_rw01 (logout budi_session)"
proof -
  have "run fresh demo_calls =
      snd (login (logout (snd (login (snd (register fresh budi_data zeros
              ''2024-07-01T00:00:00.000Z'')) ''budi'' ''rahasia'' None zeros)))
        ''admin'' ''admin'' (Some ''1'') zeros)"
    by (simp add: run_def demo_calls_def)
  also have "\<dots> = snd (login (logout budi_session) ''admin'' ''admin'' (Some ''1'') zeros)"
    by (simp only: budi_session_reached)
  also have "\<dots> = set_session admin_rw01 (logout budi_session)"
    by (simp add: login_admin_default [OF selected_1] logout_def budi_session_def truthy_def)
  finally show ?thesis .
qed

section \<open>The claims about the session manager\<close>

subsection \<open>C2: the default password of a privileged account\<close>

text \<open>
  C2. \<^verbatim>\<open>login("admin", "admin")\<close> with a valid selection of the jurisdiction
  succeeds and makes the selected predefined account, whose role is \<^verbatim>\<open>admin\<close>, the
  current session, provided no custom password is stored for that account. Once a
  \<^verbatim>\<open>changePassword\<close> of that identity has succeeded, the same login with the same
  selection returns \<^verbatim>\<open>false\<close> and changes nothing.
\<close>

theorem C2_admin_default_password:
  "(selected_admin rwChoice = Some a \<and> \<not> truthy (ls_admin_passwords s (id' a))
      \<longrightarrow> login s ''admin'' ''admin'' rwChoice rnd = (True, set_session a s)
        \<and> current_user (set_session a s) = Some a \<and> role a = Admin)
   \<and> (selected_admin rwChoice = Some a \<and> current_user s = Some u \<and> role u = Admin
        \<and> id' u = id' a
        \<and> success (fst (changePassword s oldPassword newPassword now_iso))
      \<longrightarrow> login (snd (changePassword s oldPassword newPassword now_iso))
            ''admin'' ''admin'' rwChoice rnd
          = (False, snd (changePassword s oldPassword newPassword now_iso)))"
proof (intro conjI impI)
  assume a: "selected_admin rwChoice = Some a \<and> \<not> truthy (ls_admin_passwords s (id' a))"
  then show "login s ''admin'' ''admin'' rwChoice rnd = (True, set_session a s)"
    by (simp add: login_admin_default)
  show "current_user (set_session a s) = Some a"
    by (simp add: set_session_def)
  from a selected_admin_cases [of rwChoice a] show "role a = Admin"
    by (auto simp: admin_rw01_def admin_rw04_def)
next
  assume a: "selected_admin rwChoice = Some a \<and> current_user s = Some u \<and> role u = Admin
        \<and> id' u = id' a
        \<and> success (fst (changePassword s oldPassword newPassword now_iso))"
  let ?s' = "snd (changePassword s oldPassword newPassword now_iso)"
  from a changePassword_admin_success [of s u oldPassword newPassword now_iso]
  have "ls_admin_passwords ?s' (id' a) = Some newPassword" and "6 \<le> length newPassword"
    by auto
  then have "truthy (ls_admin_passwords ?s' (id' a))"
    by (auto simp: truthy_def)
  with a show "login ?s' ''admin'' ''admin'' rwChoice rnd = (False, ?s')"
    by (simp add: login_admin_default)
qed

theorem C2_admin_default_password_witness:
  "login fresh ''admin'' ''admin'' (Some ''1'') zeros = (True, admin_session)
   \<and> current_user admin_session = Some admin_rw01
   \<and> role admin_rw01 = Admin
   \<and> success (fst (changePassword admin_session ''admin'' ''rahasia123''
                     ''2024-07-01T00:00:00.000Z''))
   \<and> login (snd (changePassword admin_session ''admin'' ''rahasia123''
                   ''2024-07-01T00:00:00.000Z'')) ''admin'' ''admin'' (Some ''1'') zeros
       = (False, snd (changePassword admin_session ''admin'' ''rahasia123''
                        ''2024-07-01T00:00:00.000Z''))"
proof -
  have no_override: "selected_admin (Some ''1'') = Some admin_rw01
      \<and> \<not> truthy (ls_admin_passwords fresh (id' admin_rw01))"
    by (simp add: selected_1 fresh_def truthy_def)
  have cur: "current_user admin_session = Some admin_rw01"
    by (simp add: admin_session_def set_session_def)
  have adm: "role admin_rw01 = Admin"
    by (simp add: admin_rw01_def)
  have changed: "success (fst (changePassword admin_session ''admin'' ''rahasia123''
                     ''2024-07-01T00:00:00.000Z''))"
    by (simp add: changePassword_def cur adm Let_def admin_session_def set_session_def fresh_def
        truthy_def DEFAULT_ADMIN_PASSWORD_def)
  note t1 = C2_admin_default_password [where rwChoice = "Some ''1''" and a = admin_rw01
      and s = fresh and rnd = zeros]
  note t2 = C2_admin_default_password [where rwChoice = "Some ''1''" and a = admin_rw01
      and s = admin_session and u = admin_rw01 and rnd = zeros and oldPassword = "''admin''"
      and newPassword = "''rahasia123''" and now_iso = "''2024-07-01T00:00:00.000Z''"]
  have first: "login fresh ''admin'' ''admin'' (Some ''1'') zeros = (True, set_session admin_rw01 fresh)
        \<and> current_user (set_session admin_rw01 fresh) = Some admin_rw01 \<and> role admin_rw01 = Admin"
    by (rule mp [OF conjunct1 [OF t1] no_override])
  have hyp2: "selected_admin (Some ''1'') = Some admin_rw01
      \<and> current_user admin_session = Some admin_rw01 \<and> role admin_rw01 = Admin
      \<and> id' admin_rw01 = id' admin_rw01
      \<and> success (fst (changePassword admin_session ''admin'' ''rahasia123''
                     ''2024-07-01T00:00:00.000Z''))"
    using selected_1 cur adm changed by simp
  have second: "login (snd (changePassword admin_session ''admin'' ''rahasia123''
                   ''2024-07-01T00:00:00.000Z'')) ''admin'' ''admin'' (Some ''1'') zeros
       = (False, snd (changePassword admin_session ''admin'' ''rahasia123''
                        ''2024-07-01T00:00:00.000Z''))"
    by (rule mp [OF conjunct2 [OF t2] hyp2])
  from first second changed show ?thesis
    by (simp only: admin_session_def [symmetric]) 
qed

subsection \<open>C6: the new password must differ from the old one\<close>

text \<open>
  C6. In every state, with or without a session and whatever the role,
  \<^verbatim>\<open>changePassword(p, p)\<close> returns \<^verbatim>\<open>success: false\<close> and leaves the whole state,
  so every stored password, as it was.
\<close>

theorem C6_same_password_fails:
  "\<not> success (fst (changePassword s p p now_iso))
   \<and> snd (changePassword s p p now_iso) = s"
  by (simp add: changePassword_def Let_def split: option.splits)

theorem C6_same_password_fails_witness:
  "\<not> success (fst (changePassword admin_session ''admin'' ''admin'' ''2024-07-01T00:00:00.000Z''))
   \<and> snd (changePassword admin_session ''admin'' ''admin'' ''2024-07-01T00:00:00.000Z'')
       = admin_session
   \<and> \<not> success (fst (changePassword fresh ''rahasia'' ''rahasia'' ''2024-07-01T00:00:00.000Z''))
   \<and> snd (changePassword fresh ''rahasia'' ''rahasia'' ''2024-07-01T00:00:00.000Z'') = fresh"
  using C6_same_password_fails [of admin_session "''admin''" "''2024-07-01T00:00:00.000Z''"]
    C6_same_password_fails [of fresh "''rahasia''" "''2024-07-01T00:00:00.000Z''"]
  by (intro conjI) (erule conjunct1 conjunct2)+

subsection \<open>C7: registration, then login\<close>

text \<open>
  C7. When the user name is not \<^verbatim>\<open>admin\<close> and not yet in the registry,
  \<^verbatim>\<open>register\<close> succeeds; a \<^verbatim>\<open>login\<close> with the same name and password then succeeds
  and the session is that non-privileged user; and another \<^verbatim>\<open>register\<close> with the
  same user name, before or after that login, returns \<^verbatim>\<open>success: false\<close> and changes
  nothing.
\<close>

theorem C7_register_then_login:
  "RegisterData.username d \<noteq> ''admin''
     \<and> (\<forall>u \<in> set (ls_registered_users s). username u \<noteq> RegisterData.username d)
     \<and> RegisterData.username d' = RegisterData.username d
   \<longrightarrow> success (fst (register s d rnd now_iso))
     \<and> fst (login (snd (register s d rnd now_iso))
              (RegisterData.username d) (RegisterData.password d) rwChoice rnd')
     \<and> (\<exists>u. current_user (snd (login (snd (register s d rnd now_iso))
              (RegisterData.username d) (RegisterData.password d) rwChoice rnd')) = Some u
          \<and> username u = RegisterData.username d \<and> role u = User)
     \<and> \<not> success (fst (register (snd (register s d rnd now_iso)) d' rnd'' now_iso'))
     \<and> snd (register (snd (register s d rnd now_iso)) d' rnd'' now_iso')
         = snd (register s d rnd now_iso)
     \<and> \<not> success (fst (register (snd (login (snd (register s d rnd now_iso))
              (RegisterData.username d) (RegisterData.password d) rwChoice rnd')) d' rnd'' now_iso'))"
proof (intro impI)
  assume a: "RegisterData.username d \<noteq> ''admin''
     \<and> (\<forall>u \<in> set (ls_registered_users s). username u \<noteq> RegisterData.username d)
     \<and> RegisterData.username d' = RegisterData.username d"
  define nu where "nu =
     \<lparr> id' = generateUUID rnd, username = RegisterData.username d,
       name = RegisterData.name d, role = User, rw = Some (RegisterData.rw d),
       created_at = Some now_iso, must_change_password = None,
       last_password_change = None, password = RegisterData.password d \<rparr>"
  define s1 where "s1 = s\<lparr>ls_registered_users := ls_registered_users s @ [nu]\<rparr>"
  from a have reg: "register s d rnd now_iso =
      (\<lparr>success = True, message = ''Registrasi berhasil! Silakan login.''\<rparr>, s1)"
    unfolding s1_def nu_def by (intro register_fresh_name) simp_all
  have nu: "username nu = RegisterData.username d" "password nu = RegisterData.password d"
    "role nu = User" "id' nu = generateUUID rnd"
    by (simp_all add: nu_def)
  have idok: "id' nu \<noteq> []" "uuid_regex (id' nu)"
    using generateUUID_valid [of rnd] by (simp_all add: nu isValidUUID_def)
  from a have "\<forall>u \<in> set (ls_registered_users s). username u \<noteq> username nu"
    by (simp add: nu)
  moreover have "ls_registered_users s1 = ls_registered_users s @ [nu]"
    by (simp add: s1_def)
  ultimately have "login_registered s1 (username nu) (password nu) rnd'
      = (True, set_session (user.truncate nu) s1)"
    using idok by (rule login_registered_last)
  with a have log: "login s1 (RegisterData.username d) (RegisterData.password d) rwChoice rnd'
      = (True, set_session (user.truncate nu) s1)"
    by (simp add: login_def nu)
  have taken1: "\<exists>u \<in> set (ls_registered_users s1). username u = RegisterData.username d'"
    using a by (auto simp: s1_def nu)
  then have taken2: "\<exists>u \<in> set (ls_registered_users (set_session (user.truncate nu) s1)).
      username u = RegisterData.username d'"
    by (simp add: set_session_def)
  have trunc: "username (user.truncate nu) = RegisterData.username d" "role (user.truncate nu) = User"
    by (simp_all add: user.truncate_def nu)
  show "success (fst (register s d rnd now_iso))
     \<and> fst (login (snd (register s d rnd now_iso))
              (RegisterData.username d) (RegisterData.password d) rwChoice rnd')
     \<and> (\<exists>u. current_user (snd (login (snd (register s d rnd now_iso))
              (RegisterData.username d) (RegisterData.password d) rwChoice rnd')) = Some u
          \<and> username u = RegisterData.username d \<and> role u = User)
     \<and> \<not> success (fst (register (snd (register s d rnd now_iso)) d' rnd'' now_iso'))
     \<and> snd (register (snd (register s d rnd now_iso)) d' rnd'' now_iso')
         = snd (register s d rnd now_iso)
     \<and> \<not> success (fst (register (snd (login (snd (register s d rnd now_iso))
              (RegisterData.username d) (RegisterData.password d) rwChoice rnd')) d' rnd'' now_iso'))"
    using register_taken_name [OF taken1, of rnd'' now_iso']
      register_taken_name [OF taken2, of rnd'' now_iso'] trunc
    by (simp add: reg log set_session_def)
qed

theorem C7_register_then_login_witness:
  "success (fst (register fresh budi_data zeros ''2024-07-01T00:00:00.000Z''))
   \<and> fst (login (snd (register fresh budi_data zeros ''2024-07-01T00:00:00.000Z''))
            ''budi'' ''rahasia'' None counting)
   \<and> \<not> success (fst (register (snd (register fresh budi_data zeros ''2024-07-01T00:00:00.000Z''))
                        budi_data counting ''2024-07-02T00:00:00.000Z''))"
proof -
  have hyp: "RegisterData.username budi_data \<noteq> ''admin''
     \<and> (\<forall>u \<in> set (ls_registered_users fresh). username u \<noteq> RegisterData.username budi_data)
     \<and> RegisterData.username budi_data = RegisterData.username budi_data"
    by (simp add: budi_data_def fresh_def)
  have name: "RegisterData.username budi_data = ''budi''"
    and pw: "RegisterData.password budi_data = ''rahasia''"
    by (simp_all add: budi_data_def)
  note t = mp [OF C7_register_then_login [where d = budi_data and d' = budi_data and s = fresh
        and rnd = zeros and now_iso = "''2024-07-01T00:00:00.000Z''" and rwChoice = None
        and rnd' = counting and rnd'' = counting and now_iso' = "''2024-07-02T00:00:00.000Z''"]
      hyp]
  from t have a: "success (fst (register fresh budi_data zeros ''2024-07-01T00:00:00.000Z''))"
    by (rule conjunct1)
  from t have b: "fst (login (snd (register fresh budi_data zeros ''2024-07-01T00:00:00.000Z''))
            (RegisterData.username budi_data) (RegisterData.password budi_data) None counting)"
    by (rule conjunct1 [OF conjunct2])
  from t have c: "\<not> success (fst (register (snd (register fresh budi_data zeros
      ''2024-07-01T00:00:00.000Z'')) budi_data counting ''2024-07-02T00:00:00.000Z''))"
    by (rule conjunct1 [OF conjunct2 [OF conjunct2 [OF conjunct2]]])
  from a b [unfolded name pw] c show ?thesis
    by (intro conjI)
qed

subsection \<open>C10: what \<^verbatim>\<open>changePassword\<close> leaves alone\<close>

text \<open>
  C10. Under a privileged session \<^verbatim>\<open>changePassword\<close> leaves the registry of users
  and the stored records as they are, changes no custom password but the caller's
  own, and changes the session only in its two bookkeeping fields: either the whole
  state stays as it was, or the caller's custom password is the new one and both the
  React state and the key \<^verbatim>\<open>auth_user\<close> hold the caller's identity with the two
  bookkeeping fields set. Under a
  non-privileged session it leaves the custom passwords of the privileged accounts,
  the session and the stored records as they are; in the registry only the first
  entry with the caller's identifier can change, and only in its password and its
  time of the last change. Without a session nothing changes.
\<close>

theorem C10_changePassword_frame:
  "(current_user s = Some u \<and> role u = Admin \<longrightarrow>
       ls_registered_users (snd (changePassword s oldPassword newPassword now_iso))
         = ls_registered_users s
     \<and> (\<forall>k. k \<noteq> id' u \<longrightarrow>
           ls_admin_passwords (snd (changePassword s oldPassword newPassword now_iso)) k
             = ls_admin_passwords s k)
     \<and> (\<exists>m l. current_user (snd (changePassword s oldPassword newPassword now_iso))
             = Some (u\<lparr>must_change_password := m, last_password_change := l\<rparr>))
     \<and> ls_umkm (snd (changePassword s oldPassword newPassword now_iso)) = ls_umkm s
     \<and> (ls_auth_user (snd (changePassword s oldPassword newPassword now_iso)) = ls_auth_user s
        \<or> ls_auth_user (snd (changePassword s oldPassword newPassword now_iso))
            = current_user (snd (changePassword s oldPassword newPassword now_iso)))
     \<and> (snd (changePassword s oldPassword newPassword now_iso) = s
        \<or> snd (changePassword s oldPassword newPassword now_iso)
            = s\<lparr> ls_auth_user := Some (u\<lparr>must_change_password := Some False,
                                          last_password_change := Some now_iso\<rparr>),
                 ls_admin_passwords := (ls_admin_passwords s)(id' u \<mapsto> newPassword),
                 current_user := Some (u\<lparr>must_change_password := Some False,
                                          last_password_change := Some now_iso\<rparr>) \<rparr>))
   \<and> (current_user s = Some u \<and> role u \<noteq> Admin \<longrightarrow>
       ls_admin_passwords (snd (changePassword s oldPassword newPassword now_iso))
         = ls_admin_passwords s
     \<and> current_user (snd (changePassword s oldPassword newPassword now_iso)) = current_user s
     \<and> ls_auth_user (snd (changePassword s oldPassword newPassword now_iso)) = ls_auth_user s
     \<and> ls_umkm (snd (changePassword s oldPassword newPassword now_iso)) = ls_umkm s
     \<and> length (ls_registered_users (snd (changePassword s oldPassword newPassword now_iso)))
         = length (ls_registered_users s)
     \<and> (\<forall>i < length (ls_registered_users s).
           findIndex (\<lambda>x. id' x = id' u) (ls_registered_users s) \<noteq> Some i \<longrightarrow>
           ls_registered_users (snd (changePassword s oldPassword newPassword now_iso)) ! i
             = ls_registered_users s ! i)
     \<and> (\<forall>i < length (ls_registered_users s).
           id' (ls_registered_users s ! i) \<noteq> id' u \<longrightarrow>
           ls_registered_users (snd (changePassword s oldPassword newPassword now_iso)) ! i
             = ls_registered_users s ! i)
     \<and> (\<forall>i < length (ls_registered_users s). \<exists>p t.
           ls_registered_users (snd (changePassword s oldPassword newPassword now_iso)) ! i
             = (ls_registered_users s ! i)\<lparr>password := p, last_password_change := t\<rparr>))
   \<and> (current_user s = None \<longrightarrow>
         snd (changePassword s oldPassword newPassword now_iso) = s)"
proof (intro conjI impI)
  assume a: "current_user s = Some u \<and> role u = Admin"
  let ?s' = "snd (changePassword s oldPassword newPassword now_iso)"
  from a show "ls_registered_users ?s' = ls_registered_users s"
    by (simp add: changePassword_def Let_def set_session_def)
  from a show "\<forall>k. k \<noteq> id' u \<longrightarrow> ls_admin_passwords ?s' k = ls_admin_passwords s k"
    by (simp add: changePassword_def Let_def set_session_def)
  from a show "ls_umkm ?s' = ls_umkm s"
    by (simp add: changePassword_def Let_def set_session_def)
  from a show exact: "?s' = s
      \<or> ?s' = s\<lparr> ls_auth_user := Some (u\<lparr>must_change_password := Some False,
                                           last_password_change := Some now_iso\<rparr>),
                  ls_admin_passwords := (ls_admin_passwords s)(id' u \<mapsto> newPassword),
                  current_user := Some (u\<lparr>must_change_password := Some False,
                                           last_password_change := Some now_iso\<rparr>) \<rparr>"
    by (simp add: changePassword_def Let_def set_session_def)
  then show "ls_auth_user ?s' = ls_auth_user s \<or> ls_auth_user ?s' = current_user ?s'"
    by auto
  from a have "current_user ?s' = Some u
      \<or> current_user ?s' = Some (u\<lparr>must_change_password := Some False,
            last_password_change := Some now_iso\<rparr>)"
    by (simp add: changePassword_def Let_def set_session_def)
  then show "\<exists>m l. current_user ?s' = Some (u\<lparr>must_change_password := m, last_password_change := l\<rparr>)"
  proof
    assume "current_user ?s' = Some u"
    then have "current_user ?s' = Some (u\<lparr>must_change_password := must_change_password u,
        last_password_change := last_password_change u\<rparr>)"
      by simp
    then show ?thesis by blast
  next
    assume "current_user ?s' = Some (u\<lparr>must_change_password := Some False,
            last_password_change := Some now_iso\<rparr>)"
    then show ?thesis by blast
  qed
next
  assume a: "current_user s = Some u \<and> role u \<noteq> Admin"
  let ?s' = "snd (changePassword s oldPassword newPassword now_iso)"
  let ?us = "ls_registered_users s"
  from a have cases: "?s' = s
    \<or> (\<exists>i. findIndex (\<lambda>x. id' x = id' u) ?us = Some i
          \<and> ?s' = s\<lparr>ls_registered_users := ?us
                    [i := (?us ! i)\<lparr>password := newPassword, last_password_change := Some now_iso\<rparr>]\<rparr>)"
    by (intro changePassword_cases) simp_all
  from cases show "ls_admin_passwords ?s' = ls_admin_passwords s" by auto
  from cases show "current_user ?s' = current_user s" by auto
  from cases show "ls_auth_user ?s' = ls_auth_user s" by auto
  from cases show "ls_umkm ?s' = ls_umkm s" by auto
  from cases show "length (ls_registered_users ?s') = length ?us" by auto
  from cases show "\<forall>i < length ?us. findIndex (\<lambda>x. id' x = id' u) ?us \<noteq> Some i \<longrightarrow>
      ls_registered_users ?s' ! i = ?us ! i"
    by auto
  from cases show "\<forall>i < length ?us. id' (?us ! i) \<noteq> id' u \<longrightarrow>
      ls_registered_users ?s' ! i = ?us ! i"
  proof
    assume "?s' = s"
    then show ?thesis by simp
  next
    assume "\<exists>i. findIndex (\<lambda>x. id' x = id' u) ?us = Some i
          \<and> ?s' = s\<lparr>ls_registered_users := ?us
                    [i := (?us ! i)\<lparr>password := newPassword, last_password_change := Some now_iso\<rparr>]\<rparr>"
    then obtain k where k: "findIndex (\<lambda>x. id' x = id' u) ?us = Some k"
      "?s' = s\<lparr>ls_registered_users := ?us
                    [k := (?us ! k)\<lparr>password := newPassword, last_password_change := Some now_iso\<rparr>]\<rparr>"
      by blast
    from findIndex_Some [OF k(1)] have own: "id' (?us ! k) = id' u" by simp
    show ?thesis
    proof (intro allI impI)
      fix i assume "i < length ?us" and "id' (?us ! i) \<noteq> id' u"
      with own have "i \<noteq> k" by auto
      with k(2) show "ls_registered_users ?s' ! i = ?us ! i" by simp
    qed
  qed
  from cases show "\<forall>i < length ?us. \<exists>p t.
      ls_registered_users ?s' ! i = (?us ! i)\<lparr>password := p, last_password_change := t\<rparr>"
  proof
    assume "?s' = s"
    then show ?thesis
      using same_entry by (metis)
  next
    assume "\<exists>i. findIndex (\<lambda>x. id' x = id' u) ?us = Some i
          \<and> ?s' = s\<lparr>ls_registered_users := ?us
                    [i := (?us ! i)\<lparr>password := newPassword, last_password_change := Some now_iso\<rparr>]\<rparr>"
    then obtain k where k:
      "?s' = s\<lparr>ls_registered_users := ?us
                    [k := (?us ! k)\<lparr>password := newPassword, last_password_change := Some now_iso\<rparr>]\<rparr>"
      by blast
    show ?thesis
    proof (intro allI impI)
      fix i assume i: "i < length ?us"
      show "\<exists>p t. ls_registered_users ?s' ! i = (?us ! i)\<lparr>password := p, last_password_change := t\<rparr>"
      proof (cases "i = k")
        case True
        with k i have "ls_registered_users ?s' ! i
            = (?us ! i)\<lparr>password := newPassword, last_password_change := Some now_iso\<rparr>"
          by simp
        then show ?thesis by blast
      next
        case False
        with k i have "ls_registered_users ?s' ! i = ?us ! i"
          by simp
        then have "ls_registered_users ?s' ! i = (?us ! i)\<lparr>password := password (?us ! i),
            last_password_change := last_password_change (?us ! i)\<rparr>"
          by simp
        then show ?thesis by blast
      qed
    qed
  qed
next
  assume "current_user s = None"
  then show "snd (changePassword s oldPassword newPassword now_iso) = s"
    by (simp add: changePassword_def)
qed

theorem C10_changePassword_frame_witness:
  "ls_registered_users (snd (changePassword admin_session ''admin'' ''rahasia123''
       ''2024-07-03T00:00:00.000Z'')) = ls_registered_users admin_session
   \<and> ls_admin_passwords (snd (changePassword budi_session ''rahasia'' ''rahasia99''
       ''2024-07-03T00:00:00.000Z'')) = ls_admin_passwords budi_session
   \<and> current_user (snd (changePassword budi_session ''rahasia'' ''rahasia99''
       ''2024-07-03T00:00:00.000Z'')) = current_user budi_session
   \<and> snd (changePassword fresh ''rahasia'' ''rahasia99'' ''2024-07-03T00:00:00.000Z'') = fresh
   \<and> ls_auth_user (snd (changePassword admin_session ''admin'' ''rahasia123''
       ''2024-07-03T00:00:00.000Z''))
       = current_user (snd (changePassword admin_session ''admin'' ''rahasia123''
           ''2024-07-03T00:00:00.000Z''))
   \<and> ls_auth_user (snd (changePassword budi_session ''rahasia'' ''rahasia99''
       ''2024-07-03T00:00:00.000Z'')) = ls_auth_user budi_session"
proof -
  have adm: "current_user admin_session = Some admin_rw01 \<and> role admin_rw01 = Admin"
    by (simp add: admin_session_def set_session_def admin_rw01_def)
  have usr: "current_user budi_session = Some budi_user \<and> role budi_user \<noteq> Admin"
    by (simp add: budi_session_def budi_user_def)
  have none: "current_user fresh = None"
    by (simp add: fresh_def)
  note t1 = C10_changePassword_frame [where s = admin_session and u = admin_rw01
      and oldPassword = "''admin''" and newPassword = "''rahasia123''"
      and now_iso = "''2024-07-03T00:00:00.000Z''"]
  note t2 = C10_changePassword_frame [where s = budi_session and u = budi_user
      and oldPassword = "''rahasia''" and newPassword = "''rahasia99''"
      and now_iso = "''2024-07-03T00:00:00.000Z''"]
  note t3 = C10_changePassword_frame [where s = fresh
      and oldPassword = "''rahasia''" and newPassword = "''rahasia99''"
      and now_iso = "''2024-07-03T00:00:00.000Z''"]
  note a = mp [OF conjunct1 [OF t1] adm]
  note b = mp [OF conjunct1 [OF conjunct2 [OF t2]] usr]
  note c = mp [OF conjunct2 [OF conjunct2 [OF t3]] none]
  from a have a1: "ls_registered_users (snd (changePassword admin_session ''admin'' ''rahasia123''
       ''2024-07-03T00:00:00.000Z'')) = ls_registered_users admin_session"
    by (rule conjunct1)
  from b have b1: "ls_admin_passwords (snd (changePassword budi_session ''rahasia'' ''rahasia99''
       ''2024-07-03T00:00:00.000Z'')) = ls_admin_passwords budi_session"
    by (rule conjunct1)
  from b have b2: "current_user (snd (changePassword budi_session ''rahasia'' ''rahasia99''
       ''2024-07-03T00:00:00.000Z'')) = current_user budi_session"
    by (rule conjunct1 [OF conjunct2])
  from b have b3: "ls_auth_user (snd (changePassword budi_session ''rahasia'' ''rahasia99''
       ''2024-07-03T00:00:00.000Z'')) = ls_auth_user budi_session"
    by (rule conjunct1 [OF conjunct2 [OF conjunct2]])
  have same: "ls_auth_user admin_session = current_user admin_session"
    by (simp add: admin_session_def set_session_def)
  from a have "snd (changePassword admin_session ''admin'' ''rahasia123''
        ''2024-07-03T00:00:00.000Z'') = admin_session
      \<or> snd (changePassword admin_session ''admin'' ''rahasia123'' ''2024-07-03T00:00:00.000Z'')
          = admin_session
            \<lparr> ls_auth_user := Some (admin_rw01\<lparr>must_change_password := Some False,
                  last_password_change := Some ''2024-07-03T00:00:00.000Z''\<rparr>),
              ls_admin_passwords := (ls_admin_passwords admin_session)
                  (id' admin_rw01 \<mapsto> ''rahasia123''),
              current_user := Some (admin_rw01\<lparr>must_change_password := Some False,
                  last_password_change := Some ''2024-07-03T00:00:00.000Z''\<rparr>) \<rparr>"
    by (rule conjunct2 [OF conjunct2 [OF conjunct2 [OF conjunct2 [OF conjunct2]]]])
  then have a2: "ls_auth_user (snd (changePassword admin_session ''admin'' ''rahasia123''
       ''2024-07-03T00:00:00.000Z''))
       = current_user (snd (changePassword admin_session ''admin'' ''rahasia123''
           ''2024-07-03T00:00:00.000Z''))"
  proof
    assume "snd (changePassword admin_session ''admin'' ''rahasia123''
        ''2024-07-03T00:00:00.000Z'') = admin_session"
    with same show ?thesis by simp
  next
    assume "snd (changePassword admin_session ''admin'' ''rahasia123'' ''2024-07-03T00:00:00.000Z'')
          = admin_session
            \<lparr> ls_auth_user := Some (admin_rw01\<lparr>must_change_password := Some False,
                  last_password_change := Some ''2024-07-03T00:00:00.000Z''\<rparr>),
              ls_admin_passwords := (ls_admin_passwords admin_session)
                  (id' admin_rw01 \<mapsto> ''rahasia123''),
              current_user := Some (admin_rw01\<lparr>must_change_password := Some False,
                  last_password_change := Some ''2024-07-03T00:00:00.000Z''\<rparr>) \<rparr>"
    then show ?thesis by simp
  qed
  from a1 b1 b2 c a2 b3 show ?thesis
    by (intro conjI)
qed

subsection \<open>C9: privileged sessions are predefined accounts\<close>

text \<open>
  C9. Start with an empty registry and no session, whatever custom passwords are
  stored, and run any sequence of \<^verbatim>\<open>register\<close>, \<^verbatim>\<open>login\<close>, \<^verbatim>\<open>logout\<close> and
  \<^verbatim>\<open>changePassword\<close>. Then an identity with the role \<^verbatim>\<open>admin\<close> held as the current
  session (in the React state or under the key \<^verbatim>\<open>auth_user\<close>) is one of the two
  predefined accounts, up to the bookkeeping fields of the password change, and its
  identifier is one of the two fixed ones; every entry of the registry has the role
  \<^verbatim>\<open>user\<close> and a name other than \<^verbatim>\<open>admin\<close>; and a login that succeeds through the
  registry, as every successful login with a name other than \<^verbatim>\<open>admin\<close> does, yields
  a session with the role \<^verbatim>\<open>user\<close>. In any state, a successful \<^verbatim>\<open>register\<close> appends
  one entry with the role \<^verbatim>\<open>user\<close>, and a failed one changes nothing.
\<close>

theorem C9_admin_sessions_predefined:
  "(ls_registered_users s0 = [] \<and> current_user s0 = None \<and> ls_auth_user s0 = None \<longrightarrow>
       (\<forall>u. (current_user (run s0 calls) = Some u \<or> ls_auth_user (run s0 calls) = Some u)
              \<and> role u = Admin \<longrightarrow>
            is_predefined u
            \<and> id' u \<in> {''550e8400-e29b-41d4-a716-446655440001'',
                       ''550e8400-e29b-41d4-a716-446655440004''})
     \<and> (\<forall>u \<in> set (ls_registered_users (run s0 calls)).
            role u = User \<and> username u \<noteq> ''admin'')
     \<and> (fst (login_registered (run s0 calls) uname pw rnd) \<longrightarrow>
           (\<exists>u. current_user (snd (login_registered (run s0 calls) uname pw rnd)) = Some u
              \<and> role u = User))
     \<and> (uname \<noteq> ''admin'' \<and> fst (login (run s0 calls) uname pw rwChoice rnd) \<longrightarrow>
           (\<exists>u. current_user (snd (login (run s0 calls) uname pw rwChoice rnd)) = Some u
              \<and> role u = User)))
   \<and> (success (fst (register s d rnd' now_iso)) \<longrightarrow>
        (\<exists>nu. ls_registered_users (snd (register s d rnd' now_iso))
                = ls_registered_users s @ [nu]
           \<and> role nu = User \<and> username nu = RegisterData.username d))
   \<and> (\<not> success (fst (register s d rnd' now_iso)) \<longrightarrow>
        snd (register s d rnd' now_iso) = s)"
proof (intro conjI impI)
  assume init: "ls_registered_users s0 = [] \<and> current_user s0 = None \<and> ls_auth_user s0 = None"
  then have "session_inv s0"
    by (simp add: initial_inv)
  then have inv: "session_inv (run s0 calls)"
    by (rule run_inv)
  show "\<forall>u. (current_user (run s0 calls) = Some u \<or> ls_auth_user (run s0 calls) = Some u)
              \<and> role u = Admin \<longrightarrow>
            is_predefined u
            \<and> id' u \<in> {''550e8400-e29b-41d4-a716-446655440001'',
                       ''550e8400-e29b-41d4-a716-446655440004''}"
  proof (intro allI impI)
    fix u
    assume "(current_user (run s0 calls) = Some u \<or> ls_auth_user (run s0 calls) = Some u)
        \<and> role u = Admin"
    with inv have "is_predefined u"
      by (auto simp: session_inv_def admin_is_predefined_def)
    then show "is_predefined u
        \<and> id' u \<in> {''550e8400-e29b-41d4-a716-446655440001'',
                   ''550e8400-e29b-41d4-a716-446655440004''}"
      using is_predefined_id by blast
  qed
  from inv show "\<forall>u \<in> set (ls_registered_users (run s0 calls)).
      role u = User \<and> username u \<noteq> ''admin''"
    by (simp add: session_inv_def registry_ok_def)
  from inv have reg: "registry_ok (ls_registered_users (run s0 calls))"
    by (simp add: session_inv_def)
  {
    assume "fst (login_registered (run s0 calls) uname pw rnd)"
    with login_registered_result [OF reg, of uname pw rnd]
    show "\<exists>u. current_user (snd (login_registered (run s0 calls) uname pw rnd)) = Some u
        \<and> role u = User"
      by (auto simp: set_session_def)
  }
  {
    assume "uname \<noteq> ''admin'' \<and> fst (login (run s0 calls) uname pw rwChoice rnd)"
    then have "login (run s0 calls) uname pw rwChoice rnd
        = login_registered (run s0 calls) uname pw rnd"
      and "fst (login_registered (run s0 calls) uname pw rnd)"
      by (auto simp: login_def)
    with login_registered_result [OF reg, of uname pw rnd]
    show "\<exists>u. current_user (snd (login (run s0 calls) uname pw rwChoice rnd)) = Some u
        \<and> role u = User"
      by (auto simp: set_session_def)
  }
next
  assume "success (fst (register s d rnd' now_iso))"
  with register_result [of s d rnd' now_iso] register_taken_name [of s d rnd' now_iso]
  show "\<exists>nu. ls_registered_users (snd (register s d rnd' now_iso))
                = ls_registered_users s @ [nu]
           \<and> role nu = User \<and> username nu = RegisterData.username d"
    by (auto simp: register_def Let_def split: if_splits option.splits)
next
  assume "\<not> success (fst (register s d rnd' now_iso))"
  then show "snd (register s d rnd' now_iso) = s"
    by (rule register_failed)
qed

theorem C9_admin_sessions_predefined_witness:
  "current_user (run fresh demo_calls) = Some admin_rw01
   \<and> role admin_rw01 = Admin
   \<and> is_predefined admin_rw01
   \<and> id' admin_rw01 \<in> {''550e8400-e29b-41d4-a716-446655440001'',
                        ''550e8400-e29b-41d4-a716-446655440004''}
   \<and> success (fst (register fresh budi_data zeros ''2024-07-01T00:00:00.000Z''))
   \<and> (\<exists>nu. ls_registered_users (snd (register fresh budi_data zeros ''2024-07-01T00:00:00.000Z''))
              = ls_registered_users fresh @ [nu]
         \<and> role nu = User \<and> username nu = RegisterData.username budi_data)"
proof -
  have init: "ls_registered_users fresh = [] \<and> current_user fresh = None \<and> ls_auth_user fresh = None"
    by (simp add: fresh_def)
  have cur: "current_user (run fresh demo_calls) = Some admin_rw01"
    by (simp add: demo_run set_session_def)
  have adm: "role admin_rw01 = Admin"
    by (simp add: admin_rw01_def)
  have ok: "success (fst (register fresh budi_data zeros ''2024-07-01T00:00:00.000Z''))"
    by (subst register_fresh_name) (simp_all add: budi_data_def fresh_def)
  note t = C9_admin_sessions_predefined [where ?s0.0 = fresh and calls = demo_calls
      and s = fresh and d = budi_data and rnd' = zeros
      and now_iso = "''2024-07-01T00:00:00.000Z''"]
  note reach = mp [OF conjunct1 [OF t] init]
  from conjunct1 [OF reach] cur adm
  have a: "is_predefined admin_rw01
      \<and> id' admin_rw01 \<in> {''550e8400-e29b-41d4-a716-446655440001'',
                          ''550e8400-e29b-41d4-a716-446655440004''}"
    by blast
  note b = mp [OF conjunct1 [OF conjunct2 [OF t]] ok]
  from cur adm a ok b show ?thesis
    by (intro conjI) (erule conjunct1 conjunct2 | assumption)+
qed

end
